theory Spec2Isabelle
  imports Main "HOL-Library.Sublist" "HOL-Library.AList"
begin

section \<open>Python values, exceptions and the built-ins the clients use\<close>

text \<open>
  The Amadeus clients of \<^verbatim>\<open>amadeus_tool.py\<close> handle JSON-decoded values, build
  dictionaries of query parameters and return either strings or dictionaries. All of
  these are Python values; the ones that can occur are \<^verbatim>\<open>None\<close>, booleans,
  (unbounded) integers, floats, strings, lists and dictionaries with string keys. A
  dictionary is an association list in insertion order. A string is the list of the bytes
  of its UTF-8 encoding. The clients never compute with a number, so a float (what
  \<^verbatim>\<open>json()\<close> decodes a fractional number to) is kept as its \<^verbatim>\<open>repr\<close>, the text that
  \<^verbatim>\<open>str()\<close> prints for it, such as \<^verbatim>\<open>12.5\<close>, \<^verbatim>\<open>1e+16\<close> or \<^verbatim>\<open>nan\<close>.
\<close>

datatype pyval =
    PNone
  | PBool bool
  | PInt int
  | PFloat string
  | PStr string
  | PList "pyval list"
  | PDict "(string \<times> pyval) list"

text \<open>
  An exception object, as far as the handlers look at it: the classes it is an instance
  of (an \<^verbatim>\<open>except C\<close> clause tests \<^verbatim>\<open>isinstance(e, C)\<close>, and a class may have
  several bases), the text of \<^verbatim>\<open>str(e)\<close>, and the \<^verbatim>\<open>response\<close> attribute of a
  \<^verbatim>\<open>requests\<close> exception, of which the handlers read the status (for its truth value)
  and the body text.
\<close>

datatype exc_class =
  RequestException | HTTPError | JSONDecodeError | ValueError | KeyError | TypeError
  | AttributeError

record py_exception =
  exc_classes :: "exc_class list"
  exc_str :: string
  exc_response :: "(nat \<times> string) option"

definition isinstance :: "py_exception \<Rightarrow> exc_class \<Rightarrow> bool" where
  "isinstance e c = (c \<in> set (exc_classes e))"

text \<open>What a call does: it returns a value or it raises.\<close>

datatype 'a outcome = Return 'a | Raise py_exception

text \<open>Sequencing inside a \<^verbatim>\<open>try\<close> block: the first exception ends the block.\<close>

definition and_then :: "py_exception + 'a \<Rightarrow> ('a \<Rightarrow> py_exception + 'b) \<Rightarrow> py_exception + 'b" where
  "and_then x f = (case x of Inl e \<Rightarrow> Inl e | Inr v \<Rightarrow> f v)"

definition type_error :: "string \<Rightarrow> py_exception" where
  "type_error msg = \<lparr>exc_classes = [TypeError], exc_str = msg, exc_response = None\<rparr>"

definition attribute_error :: "string \<Rightarrow> py_exception" where
  "attribute_error msg = \<lparr>exc_classes = [AttributeError], exc_str = msg, exc_response = None\<rparr>"

fun type_name :: "pyval \<Rightarrow> string" where
  "type_name PNone = ''NoneType''"
| "type_name (PBool _) = ''bool''"
| "type_name (PInt _) = ''int''"
| "type_name (PFloat _) = ''float''"
| "type_name (PStr _) = ''str''"
| "type_name (PList _) = ''list''"
| "type_name (PDict _) = ''dict''"

definition quoted :: "string \<Rightarrow> string" where
  "quoted s = [CHR 0x27] @ s @ [CHR 0x27]"

text \<open>Truth value of a Python value (\<^verbatim>\<open>if x:\<close>, \<^verbatim>\<open>not x\<close>).\<close>

fun truthy :: "pyval \<Rightarrow> bool" where
  "truthy PNone = False"
| "truthy (PBool b) = b"
| "truthy (PInt i) = (i \<noteq> 0)"
| "truthy (PFloat r) = (r \<noteq> ''0.0'' \<and> r \<noteq> ''-0.0'')"
| "truthy (PStr s) = (s \<noteq> [])"
| "truthy (PList xs) = (xs \<noteq> [])"
| "truthy (PDict kvs) = (kvs \<noteq> [])"

text \<open>\<^verbatim>\<open>not s\<close> for a value that is a string or \<^verbatim>\<open>None\<close> (an environment variable).\<close>

fun unset :: "string option \<Rightarrow> bool" where
  "unset None = True"
| "unset (Some s) = (s = [])"

fun opt_str :: "string option \<Rightarrow> pyval" where
  "opt_str None = PNone"
| "opt_str (Some s) = PStr s"

text \<open>
  \<^verbatim>\<open>obj.get(key, default)\<close>: a dictionary answers; any other JSON value has no
  attribute \<^verbatim>\<open>get\<close>.
\<close>

definition py_get :: "pyval \<Rightarrow> string \<Rightarrow> pyval \<Rightarrow> py_exception + pyval" where
  "py_get obj key dflt =
    (case obj of
       PDict kvs \<Rightarrow> Inr (case map_of kvs key of Some v \<Rightarrow> v | None \<Rightarrow> dflt)
     | _ \<Rightarrow> Inl (attribute_error
               (quoted (type_name obj) @ '' object has no attribute '' @ quoted ''get'')))"

text \<open>
  \<^verbatim>\<open>for h in obj\<close>: the elements of a list, the keys of a dictionary, the characters
  of a string; anything else is not iterable. (The elements of a string are one-character
  strings; for a string that is not ASCII its bytes stand for them. The clients only call
  \<^verbatim>\<open>get\<close> on such an element, which raises on the first one.)
\<close>

definition py_iter :: "pyval \<Rightarrow> py_exception + pyval list" where
  "py_iter obj =
    (case obj of
       PList xs \<Rightarrow> Inr xs
     | PDict kvs \<Rightarrow> Inr (map (\<lambda>kv. PStr (fst kv)) kvs)
     | PStr s \<Rightarrow> Inr (map (\<lambda>c. PStr [c]) s)
     | _ \<Rightarrow> Inl (type_error (quoted (type_name obj) @ '' object is not iterable'')))"

text \<open>\<^verbatim>\<open>sub in s\<close> on strings: \<^verbatim>\<open>sub\<close> occurs in \<^verbatim>\<open>s\<close> as a contiguous run.\<close>

fun has_substring :: "string \<Rightarrow> string \<Rightarrow> bool" where
  "has_substring sub [] = (sub = [])"
| "has_substring sub (c # cs) = (prefix sub (c # cs) \<or> has_substring sub cs)"

text \<open>
  \<^verbatim>\<open>sub in obj\<close> for a string \<^verbatim>\<open>sub\<close>: substring test on a string, membership in a
  list, key test on a dictionary; \<^verbatim>\<open>None\<close>, booleans and numbers raise.
\<close>

definition py_contains :: "pyval \<Rightarrow> string \<Rightarrow> py_exception + bool" where
  "py_contains obj sub =
    (case obj of
       PStr s \<Rightarrow> Inr (has_substring sub s)
     | PList xs \<Rightarrow> Inr (PStr sub \<in> set xs)
     | PDict kvs \<Rightarrow> Inr (sub \<in> set (map fst kvs))
     | _ \<Rightarrow> Inl (type_error
               (''argument of type '' @ quoted (type_name obj) @ '' is not iterable'')))"

subsection \<open>The interpreter's Unicode tables\<close>

text \<open>
  \<^verbatim>\<open>str.upper()\<close>, \<^verbatim>\<open>str.lower()\<close> and \<^verbatim>\<open>repr\<close> of a string follow the Unicode
  character database of the interpreter: the full case mappings (\<^verbatim>\<open>first\<close> spelled
  with the ligature U+FB01 uppercases to \<^verbatim>\<open>FIRST\<close>) and the set of printable code
  points (\<^verbatim>\<open>repr\<close> escapes the others). These tables are no part of the repository.
  On a string of ASCII characters the three operations are fixed and are defined below;
  on any other string they are what the interpreter says, a parameter of the model.
\<close>

record interpreter =
  unicode_upper :: "string \<Rightarrow> string"
  unicode_lower :: "string \<Rightarrow> string"
  unicode_repr :: "string \<Rightarrow> string"

definition is_ascii :: "string \<Rightarrow> bool" where
  "is_ascii s = list_all (\<lambda>c. (of_char c :: nat) < 128) s"

subsection \<open>Rendering values as strings\<close>

definition digit_char :: "nat \<Rightarrow> char" where
  "digit_char d = ''0123456789abcdef'' ! d"

function show_nat :: "nat \<Rightarrow> string" where
  "show_nat n = (if n < 10 then [digit_char n] else show_nat (n div 10) @ [digit_char (n mod 10)])"
  by pat_completeness auto
termination
  by (relation "measure id") auto

declare show_nat.simps [simp del]

definition show_int :: "int \<Rightarrow> string" where
  "show_int i = (if i < 0 then ''-'' @ show_nat (nat (- i)) else show_nat (nat i))"

text \<open>
  \<^verbatim>\<open>repr\<close> of a string of ASCII characters: single quotes unless the string holds a
  single quote and no double quote; the quote and the backslash are escaped, tab, newline
  and carriage return are written symbolically, the other control characters and DEL as
  \<^verbatim>\<open>\xNN\<close>. For any other string \<^verbatim>\<open>repr\<close> is the interpreter's.
\<close>

definition repr_quote :: "string \<Rightarrow> char" where
  "repr_quote s = (if CHR 0x27 \<in> set s \<and> CHR 0x22 \<notin> set s then CHR 0x22 else CHR 0x27)"

definition repr_char :: "char \<Rightarrow> char \<Rightarrow> string" where
  "repr_char q c =
    (if c = q \<or> c = CHR 0x5C then [CHR 0x5C, c]
     else if c = CHR 0x09 then [CHR 0x5C, CHR ''t'']
     else if c = CHR 0x0A then [CHR 0x5C, CHR ''n'']
     else if c = CHR 0x0D then [CHR 0x5C, CHR ''r'']
     else if (of_char c :: nat) < 32 \<or> (of_char c :: nat) = 127
       then [CHR 0x5C, CHR ''x'', digit_char (of_char c div 16), digit_char (of_char c mod 16)]
     else [c])"

definition repr_str :: "interpreter \<Rightarrow> string \<Rightarrow> string" where
  "repr_str py s =
    (if is_ascii s
     then [repr_quote s] @ concat (map (repr_char (repr_quote s)) s) @ [repr_quote s]
     else unicode_repr py s)"

text \<open>\<^verbatim>\<open>sep.join(parts)\<close> on a list of strings.\<close>

fun intercalate :: "string \<Rightarrow> string list \<Rightarrow> string" where
  "intercalate sep [] = []"
| "intercalate sep [x] = x"
| "intercalate sep (x # y # zs) = x @ sep @ intercalate sep (y # zs)"

primrec py_repr :: "interpreter \<Rightarrow> pyval \<Rightarrow> string" where
  "py_repr py PNone = ''None''"
| "py_repr py (PBool b) = (if b then ''True'' else ''False'')"
| "py_repr py (PInt i) = show_int i"
| "py_repr py (PFloat r) = r"
| "py_repr py (PStr s) = repr_str py s"
| "py_repr py (PList xs) = ''['' @ intercalate '', '' (map (py_repr py) xs) @ '']''"
| "py_repr py (PDict kvs) =
     ''{'' @ intercalate '', '' (map (\<lambda>kr. repr_str py (fst kr) @ '': '' @ snd kr)
                                    (map (map_prod id (py_repr py)) kvs)) @ ''}''"

text \<open>\<^verbatim>\<open>str(v)\<close>, which is also what an f-string field \<^verbatim>\<open>{v}\<close> inserts.\<close>

definition py_str :: "interpreter \<Rightarrow> pyval \<Rightarrow> string" where
  "py_str py v = (case v of PStr s \<Rightarrow> s | _ \<Rightarrow> py_repr py v)"

subsection \<open>String and list operations\<close>

text \<open>
  \<^verbatim>\<open>s.upper()\<close> and \<^verbatim>\<open>s.lower()\<close>: on a string of ASCII characters the letters
  change case and every other character stays; any other string is mapped by the
  interpreter's tables.
\<close>

definition upper_char :: "char \<Rightarrow> char" where
  "upper_char c =
    (case map_of (zip ''abcdefghijklmnopqrstuvwxyz'' ''ABCDEFGHIJKLMNOPQRSTUVWXYZ'') c of
       Some u \<Rightarrow> u | None \<Rightarrow> c)"

definition upper :: "interpreter \<Rightarrow> string \<Rightarrow> string" where
  "upper py s = (if is_ascii s then map upper_char s else unicode_upper py s)"

definition lower_char :: "char \<Rightarrow> char" where
  "lower_char c =
    (case map_of (zip ''ABCDEFGHIJKLMNOPQRSTUVWXYZ'' ''abcdefghijklmnopqrstuvwxyz'') c of
       Some l \<Rightarrow> l | None \<Rightarrow> c)"

definition lower :: "interpreter \<Rightarrow> string \<Rightarrow> string" where
  "lower py s = (if is_ascii s then map lower_char s else unicode_lower py s)"

text \<open>
  \<^verbatim>\<open>",".join(items)\<close>: every item must be a string; the first one that is not raises
  a \<^verbatim>\<open>TypeError\<close> naming its position and type.
\<close>

fun join_from :: "nat \<Rightarrow> pyval list \<Rightarrow> py_exception + string list" where
  "join_from i [] = Inr []"
| "join_from i (PStr s # vs) = and_then (join_from (Suc i) vs) (\<lambda>ss. Inr (s # ss))"
| "join_from i (v # vs) =
     Inl (type_error (''sequence item '' @ show_nat i @ '': expected str instance, ''
                       @ type_name v @ '' found''))"

definition py_join :: "string \<Rightarrow> pyval list \<Rightarrow> py_exception + string" where
  "py_join sep items = and_then (join_from 0 items) (\<lambda>ss. Inr (intercalate sep ss))"

text \<open>
  \<^verbatim>\<open>xs[:n]\<close>: the first \<^verbatim>\<open>n\<close> elements; a negative \<^verbatim>\<open>n\<close> counts from the end, so the
  last \<^verbatim>\<open>-n\<close> elements are dropped.
\<close>

definition slice_to :: "'a list \<Rightarrow> int \<Rightarrow> 'a list" where
  "slice_to xs n = (if 0 \<le> n then take (nat n) xs else take (length xs - nat (- n)) xs)"

section \<open>The HTTP boundary\<close>

text \<open>
  The clients reach the provider through \<^verbatim>\<open>requests.post\<close> and \<^verbatim>\<open>requests.get\<close>.
  A request is what the client hands to the library; the provider and the network are a
  function from requests to what the library does with them: it raises, or it returns a
  response. Of a response the clients use the status (through
  \<^verbatim>\<open>raise_for_status\<close>), the body text, and \<^verbatim>\<open>json()\<close>, which returns the decoded
  body or raises. Every call appends its request to a log, so that the number and order
  of outbound calls can be stated.
\<close>

datatype http_method = GET | POST

record request =
  req_method :: http_method
  req_url :: string
  req_headers :: "(string \<times> string) list"
  req_params :: "(string \<times> pyval) list"
  req_data :: "(string \<times> pyval) list"
  req_timeout :: "nat option"

record response =
  status_code :: nat
  reason :: string
  resp_url :: string
  resp_text :: string
  resp_json :: "py_exception + pyval"

datatype http_result = Raises py_exception | Responds response

text \<open>
  The process environment: the two credentials read by \<^verbatim>\<open>os.getenv\<close> at import time
  (\<^verbatim>\<open>None\<close> when the variable is not set), the provider, and the interpreter's
  Unicode tables.
\<close>

record env =
  AMADEUS_API_KEY :: "string option"
  AMADEUS_API_SECRET :: "string option"
  http :: "request \<Rightarrow> http_result"
  python :: interpreter

definition received :: "http_result \<Rightarrow> py_exception + response" where
  "received h = (case h of Raises e \<Rightarrow> Inl e | Responds r \<Rightarrow> Inr r)"

text \<open>
  \<^verbatim>\<open>response.raise_for_status()\<close>: a status from 400 to 599 raises an
  \<^verbatim>\<open>HTTPError\<close> (a \<^verbatim>\<open>RequestException\<close>) that carries the response.
\<close>

definition http_error_msg :: "response \<Rightarrow> string" where
  "http_error_msg r =
    show_nat (status_code r)
    @ (if status_code r < 500 then '' Client Error: '' else '' Server Error: '')
    @ reason r @ '' for url: '' @ resp_url r"

definition raise_for_status :: "response \<Rightarrow> py_exception + response" where
  "raise_for_status r =
    (if 400 \<le> status_code r \<and> status_code r < 600
     then Inl \<lparr>exc_classes = [HTTPError, RequestException], exc_str = http_error_msg r,
               exc_response = Some (status_code r, resp_text r)\<rparr>
     else Inr r)"

text \<open>The truth value of a response object is its \<^verbatim>\<open>ok\<close> property.\<close>

definition response_ok :: "nat \<Rightarrow> bool" where
  "response_ok status = (\<not> (400 \<le> status \<and> status < 600))"

section \<open>Token acquisition and flight search\<close>

definition TOKEN_URL :: string where
  "TOKEN_URL = ''https://test.api.amadeus.com/v1/security/oauth2/token''"

definition FLIGHT_OFFERS_URL :: string where
  "FLIGHT_OFFERS_URL = ''https://test.api.amadeus.com/v2/shopping/flight-offers''"

definition token_request :: "string \<Rightarrow> env \<Rightarrow> nat option \<Rightarrow> request" where
  "token_request url env timeout =
    \<lparr>req_method = POST, req_url = url,
     req_headers = [(''Content-Type'', ''application/x-www-form-urlencoded'')],
     req_params = [],
     req_data = [(''grant_type'', PStr ''client_credentials''),
                 (''client_id'', opt_str (AMADEUS_API_KEY env)),
                 (''client_secret'', opt_str (AMADEUS_API_SECRET env))],
     req_timeout = timeout\<rparr>"

definition CONFIG_ERROR :: string where
  "CONFIG_ERROR = ''Error: Amadeus API Key or Secret is not set in environment variables.''"

text \<open>The body of the \<^verbatim>\<open>try\<close> block of \<^verbatim>\<open>_get_amadeus_token\<close>.\<close>

definition token_try :: "env \<Rightarrow> py_exception + pyval" where
  "token_try env =
    and_then (and_then (received (http env (token_request TOKEN_URL env None))) raise_for_status)
      (\<lambda>response. and_then (resp_json response)
        (\<lambda>body. py_get body ''access_token'' PNone))"

definition get_amadeus_token :: "env \<Rightarrow> request list \<Rightarrow> pyval outcome \<times> request list" where
  "get_amadeus_token env log =
    (if unset (AMADEUS_API_KEY env) \<or> unset (AMADEUS_API_SECRET env)
     then (Return (PStr CONFIG_ERROR), log)
     else
       (case token_try env of
          Inr token \<Rightarrow> Return token
        | Inl e \<Rightarrow>
            if isinstance e RequestException
            then Return (PStr (''Error fetching Amadeus token: '' @ exc_str e))
            else Raise e,
        log @ [token_request TOKEN_URL env None]))"

record flight_query =
  origin_location_code :: string
  destination_location_code :: string
  departure_date :: string
  adults :: int
  non_stop :: bool
  return_date :: "string option"
  children :: int
  infants :: int
  travel_class :: "string option"
  max_results :: int

definition flight_params :: "env \<Rightarrow> flight_query \<Rightarrow> (string \<times> pyval) list" where
  "flight_params env q =
    (let params0 =
           [(''originLocationCode'', PStr (origin_location_code q)),
            (''destinationLocationCode'', PStr (destination_location_code q)),
            (''departureDate'', PStr (departure_date q)),
            (''adults'', PInt (adults q)),
            (''nonStop'', PStr (lower (python env) (py_str (python env) (PBool (non_stop q))))),
            (''max'', PInt (max_results q))];
         params1 =
           (if \<not> unset (return_date q)
            then AList.update ''returnDate'' (opt_str (return_date q)) params0 else params0);
         params2 =
           (if children q > 0
            then AList.update ''children'' (PInt (children q)) params1 else params1);
         params3 =
           (if infants q > 0
            then AList.update ''infants'' (PInt (infants q)) params2 else params2)
     in (case travel_class q of
           None \<Rightarrow> params3
         | Some tc \<Rightarrow>
             if tc \<noteq> []
             then (if upper (python env) tc
                        \<in> set [''ECONOMY'', ''PREMIUM_ECONOMY'', ''BUSINESS'', ''FIRST'']
                   then AList.update ''travelClass'' (PStr (upper (python env) tc)) params3
                   else params3)
             else params3))"

definition flight_request :: "env \<Rightarrow> pyval \<Rightarrow> flight_query \<Rightarrow> request" where
  "flight_request env token q =
    \<lparr>req_method = GET, req_url = FLIGHT_OFFERS_URL,
     req_headers = [(''Authorization'', ''Bearer '' @ py_str (python env) token)],
     req_params = flight_params env q, req_data = [], req_timeout = None\<rparr>"

text \<open>The body of the \<^verbatim>\<open>try\<close> block of \<^verbatim>\<open>search_amadeus_flights\<close>.\<close>

definition flight_try :: "env \<Rightarrow> pyval \<Rightarrow> flight_query \<Rightarrow> py_exception + pyval" where
  "flight_try env token q =
    and_then (and_then (received (http env (flight_request env token q))) raise_for_status)
      (\<lambda>response. and_then (resp_json response)
        (\<lambda>body. Inr (PStr (py_str (python env) body))))"

definition search_amadeus_flights ::
  "env \<Rightarrow> flight_query \<Rightarrow> request list \<Rightarrow> pyval outcome \<times> request list" where
  "search_amadeus_flights env q log0 =
    (case get_amadeus_token env log0 of
       (Raise e, log1) \<Rightarrow> (Raise e, log1)
     | (Return token, log1) \<Rightarrow>
         (case py_contains token ''Error'' of
            Inl e \<Rightarrow> (Raise e, log1)
          | Inr True \<Rightarrow> (Return token, log1)
          | Inr False \<Rightarrow>
              (case flight_try env token q of
                 Inr result \<Rightarrow> Return result
               | Inl e \<Rightarrow>
                   if isinstance e RequestException
                   then (case exc_response e of
                           Some resp \<Rightarrow> Return (PStr (''Error from Amadeus API: '' @ snd resp))
                         | None \<Rightarrow> Return (PStr (''Error fetching flight offers: '' @ exc_str e)))
                   else Raise e,
               log1 @ [flight_request env token q])))"

section \<open>Hotel search\<close>

record hotel_query =
  city_code :: string
  check_in_date :: string
  check_out_date :: string
  hotel_adults :: int
  use_test_env :: bool
  radius_km :: int
  max_hotels :: int
  currency :: string
  price_range :: string
  room_quantity :: int
  view :: string

definition base :: "hotel_query \<Rightarrow> string" where
  "base q = (if use_test_env q then ''https://test.api.amadeus.com'' else ''https://api.amadeus.com'')"

definition HOTEL_TOKEN_URL :: "hotel_query \<Rightarrow> string" where
  "HOTEL_TOKEN_URL q = base q @ ''/v1/security/oauth2/token''"

definition HOTEL_LIST_URL :: "hotel_query \<Rightarrow> string" where
  "HOTEL_LIST_URL q = base q @ ''/v1/reference-data/locations/hotels/by-city''"

definition HOTEL_OFFERS_URL :: "hotel_query \<Rightarrow> string" where
  "HOTEL_OFFERS_URL q = base q @ ''/v3/shopping/hotel-offers''"

definition TIMEOUT :: nat where
  "TIMEOUT = 20"

text \<open>
  \<^verbatim>\<open>getattr(e, "response", None).text if getattr(e, "response", None) else str(e)\<close>:
  the body of the exception's response when there is one and it is truthy.
\<close>

definition error_details :: "py_exception \<Rightarrow> string" where
  "error_details e =
    (case exc_response e of
       Some resp \<Rightarrow> if response_ok (fst resp) then snd resp else exc_str e
     | None \<Rightarrow> exc_str e)"

subsection \<open>Stage auth\<close>

definition hotel_token_request :: "env \<Rightarrow> hotel_query \<Rightarrow> request" where
  "hotel_token_request env q = token_request (HOTEL_TOKEN_URL q) env (Some TIMEOUT)"

text \<open>The \<^verbatim>\<open>try\<close> block up to the token: the response and \<^verbatim>\<open>access_token\<close>.\<close>

definition hotel_auth_try :: "env \<Rightarrow> hotel_query \<Rightarrow> py_exception + response \<times> pyval" where
  "hotel_auth_try env q =
    and_then (and_then (received (http env (hotel_token_request env q))) raise_for_status)
      (\<lambda>token_resp. and_then (resp_json token_resp)
        (\<lambda>body. and_then (py_get body ''access_token'' PNone)
          (\<lambda>access_token. Inr (token_resp, access_token))))"

text \<open>
  A stage ends the call (\<open>Inl\<close>, with what the call does) or hands its result to the
  next stage (\<open>Inr\<close>).
\<close>

definition hotel_auth ::
  "env \<Rightarrow> hotel_query \<Rightarrow> request list \<Rightarrow> (pyval outcome + pyval) \<times> request list" where
  "hotel_auth env q log =
    (case hotel_auth_try env q of
       Inr (token_resp, access_token) \<Rightarrow>
         if \<not> truthy access_token
         then Inl (Return (PDict [(''error'', PStr ''No access_token in token response''),
                                  (''details'', PStr (resp_text token_resp)),
                                  (''step'', PStr ''auth'')]))
         else Inr access_token
     | Inl e \<Rightarrow>
         if isinstance e RequestException
         then Inl (Return (PDict [(''error'', PStr ''Amadeus authentication failed''),
                                  (''details'', PStr (error_details e)),
                                  (''step'', PStr ''auth'')]))
         else Inl (Raise e),
     log @ [hotel_token_request env q])"

subsection \<open>Stage 1: hotel identifiers by city\<close>

definition auth_headers :: "env \<Rightarrow> pyval \<Rightarrow> (string \<times> string) list" where
  "auth_headers env access_token =
    [(''Authorization'', ''Bearer '' @ py_str (python env) access_token)]"

definition hotel_list_request :: "env \<Rightarrow> hotel_query \<Rightarrow> pyval \<Rightarrow> request" where
  "hotel_list_request env q access_token =
    \<lparr>req_method = GET, req_url = HOTEL_LIST_URL q,
     req_headers = auth_headers env access_token,
     req_params = [(''cityCode'', PStr (city_code q)), (''radius'', PInt (radius_km q)),
                   (''radiusUnit'', PStr ''KM'')],
     req_data = [], req_timeout = Some TIMEOUT\<rparr>"

text \<open>
  \<^verbatim>\<open>[h.get("hotelId") for h in hotels_data if h.get("hotelId")]\<close>, element by element:
  the first element that is not a dictionary raises.
\<close>

fun collect_hotel_ids :: "pyval list \<Rightarrow> py_exception + pyval list" where
  "collect_hotel_ids [] = Inr []"
| "collect_hotel_ids (h # hs) =
     and_then (py_get h ''hotelId'' PNone)
       (\<lambda>hotel_id. and_then (collect_hotel_ids hs)
         (\<lambda>ids. Inr (if truthy hotel_id then hotel_id # ids else ids)))"

definition hotel_list_try :: "env \<Rightarrow> hotel_query \<Rightarrow> pyval \<Rightarrow> py_exception + pyval list" where
  "hotel_list_try env q access_token =
    and_then (and_then (received (http env (hotel_list_request env q access_token))) raise_for_status)
      (\<lambda>list_resp. and_then (resp_json list_resp)
        (\<lambda>body. and_then (py_get body ''data'' (PList []))
          (\<lambda>hotels_data. and_then (py_iter hotels_data)
            (\<lambda>hs. and_then (collect_hotel_ids hs)
              (\<lambda>ids. Inr (slice_to ids (max_hotels q)))))))"

definition hotel_list ::
  "env \<Rightarrow> hotel_query \<Rightarrow> pyval \<Rightarrow> request list \<Rightarrow> (pyval outcome + pyval list) \<times> request list" where
  "hotel_list env q access_token log =
    (case hotel_list_try env q access_token of
       Inr hotel_ids \<Rightarrow> Inr hotel_ids
     | Inl e \<Rightarrow>
         if isinstance e RequestException
         then Inl (Return (PDict [(''error'', PStr ''Hotel List API error''),
                                  (''details'', PStr (error_details e)),
                                  (''step'', PInt 1)]))
         else if isinstance e ValueError \<or> isinstance e KeyError \<or> isinstance e TypeError
         then Inl (Return (PDict [(''error'', PStr (''Could not parse hotel IDs: '' @ exc_str e)),
                                  (''step'', PInt 1)]))
         else Inl (Raise e),
     log @ [hotel_list_request env q access_token])"

definition no_hotels_error :: "hotel_query \<Rightarrow> pyval" where
  "no_hotels_error q =
    PDict [(''error'', PStr (''No hotels found in '' @ city_code q
                             @ ''. Check city code or increase radius.'')),
           (''step'', PInt 1)]"

subsection \<open>Stage 2: offers for those hotels\<close>

definition offer_params :: "hotel_query \<Rightarrow> string \<Rightarrow> (string \<times> pyval) list" where
  "offer_params q hotel_ids =
    (let params0 =
           [(''hotelIds'', PStr hotel_ids),
            (''checkInDate'', PStr (check_in_date q)),
            (''checkOutDate'', PStr (check_out_date q)),
            (''adults'', PInt (hotel_adults q)),
            (''roomQuantity'', PInt (room_quantity q)),
            (''includeClosed'', PStr ''true''),
            (''bestRateOnly'', PStr ''false''),
            (''priceRange'', PStr (price_range q)),
            (''view'', PStr ''FULL'')];
         params1 =
           (if currency q \<noteq> []
            then AList.update ''currency'' (PStr (currency q)) params0 else params0);
         params2 =
           (if price_range q \<noteq> []
            then AList.update ''priceRange'' (PStr (price_range q)) params1 else params1)
     in (if view q \<noteq> [] then AList.update ''view'' (PStr (view q)) params2 else params2))"

definition hotel_offers_request ::
  "env \<Rightarrow> hotel_query \<Rightarrow> pyval \<Rightarrow> string \<Rightarrow> request" where
  "hotel_offers_request env q access_token hotel_ids =
    \<lparr>req_method = GET, req_url = HOTEL_OFFERS_URL q,
     req_headers = auth_headers env access_token,
     req_params = offer_params q hotel_ids, req_data = [], req_timeout = Some TIMEOUT\<rparr>"

definition hotel_offers_try :: "env \<Rightarrow> hotel_query \<Rightarrow> pyval \<Rightarrow> string \<Rightarrow> py_exception + pyval" where
  "hotel_offers_try env q access_token hotel_ids =
    and_then
      (and_then (received (http env (hotel_offers_request env q access_token hotel_ids)))
         raise_for_status)
      resp_json"

definition hotel_offers ::
  "env \<Rightarrow> hotel_query \<Rightarrow> pyval \<Rightarrow> string \<Rightarrow> request list \<Rightarrow> pyval outcome \<times> request list" where
  "hotel_offers env q access_token hotel_ids log =
    (case hotel_offers_try env q access_token hotel_ids of
       Inr offers \<Rightarrow> Return offers
     | Inl e \<Rightarrow>
         if isinstance e RequestException
         then Return (PDict [(''error'', PStr ''Hotel Offers API error''),
                             (''details'', PStr (error_details e)),
                             (''step'', PInt 2)])
         else Raise e,
     log @ [hotel_offers_request env q access_token hotel_ids])"

subsection \<open>The chain\<close>

definition search_amadeus_hotels ::
  "env \<Rightarrow> hotel_query \<Rightarrow> request list \<Rightarrow> pyval outcome \<times> request list" where
  "search_amadeus_hotels env q log0 =
    (case hotel_auth env q log0 of
       (Inl result, log1) \<Rightarrow> (result, log1)
     | (Inr access_token, log1) \<Rightarrow>
         (case hotel_list env q access_token log1 of
            (Inl result, log2) \<Rightarrow> (result, log2)
          | (Inr hotel_ids, log2) \<Rightarrow>
              if hotel_ids = [] then (Return (no_hotels_error q), log2)
              else (case py_join '','' hotel_ids of
                      Inl e \<Rightarrow> (Raise e, log2)
                    | Inr joined \<Rightarrow> hotel_offers env q access_token joined log2)))"

section \<open>Example providers and queries\<close>

text \<open>Concrete inputs on which the results below are evaluated.\<close>

definition sample_flight_query :: flight_query where
  "sample_flight_query =
    \<lparr>origin_location_code = ''LHR'', destination_location_code = ''TYO'',
     departure_date = ''2025-12-01'', adults = 1, non_stop = False, return_date = None,
     children = 0, infants = 0, travel_class = Some ''economy'', max_results = 3\<rparr>"

text \<open>A hotel query with the defaults of the signature.\<close>

definition sample_hotel_query :: hotel_query where
  "sample_hotel_query =
    \<lparr>city_code = ''PAR'', check_in_date = ''2025-12-01'', check_out_date = ''2025-12-05'',
     hotel_adults = 1, use_test_env = True, radius_km = 1000, max_hotels = 5,
     currency = ''EUR'', price_range = ''1-10000'', room_quantity = 1, view = []\<rparr>"

definition ok_response :: "string \<Rightarrow> pyval \<Rightarrow> response" where
  "ok_response body_text body =
    \<lparr>status_code = 200, reason = ''OK'', resp_url = [], resp_text = body_text,
     resp_json = Inr body\<rparr>"

definition error_response :: "nat \<Rightarrow> string \<Rightarrow> string \<Rightarrow> response" where
  "error_response status phrase body_text =
    \<lparr>status_code = status, reason = phrase, resp_url = ''https://test.api.amadeus.com/'',
     resp_text = body_text, resp_json = Inr (PDict [])\<rparr>"

text \<open>A provider answers by endpoint: token, flight offers, hotel list, hotel offers.\<close>

definition provider ::
  "http_result \<Rightarrow> http_result \<Rightarrow> http_result \<Rightarrow> http_result \<Rightarrow> request \<Rightarrow> http_result" where
  "provider token flights hotels offers r =
    (if req_method r = POST then token
     else if req_url r = FLIGHT_OFFERS_URL then flights
     else if req_url r = HOTEL_LIST_URL sample_hotel_query then hotels
     else offers)"

definition token_ok :: http_result where
  "token_ok = Responds (ok_response ''{\"access_token\": \"tok\"}''
                          (PDict [(''access_token'', PStr ''tok'')]))"

definition flights_ok :: http_result where
  "flights_ok = Responds (ok_response ''{\"data\": []}'' (PDict [(''data'', PList [])]))"

definition hotels_ok :: http_result where
  "hotels_ok =
    Responds (ok_response
      ''{\"data\": [{\"hotelId\": \"H1\"}, {\"name\": \"Ritz\"}, {\"hotelId\": \"H2\"}]}''
      (PDict [(''data'', PList [PDict [(''hotelId'', PStr ''H1'')],
                                PDict [(''name'', PStr ''Ritz'')],
                                PDict [(''hotelId'', PStr ''H2'')]])]))"

definition offers_ok :: http_result where
  "offers_ok = Responds (ok_response ''{\"data\": []}'' (PDict [(''data'', PList [])]))"

definition connection_error :: py_exception where
  "connection_error =
    \<lparr>exc_classes = [RequestException], exc_str = ''Connection refused'', exc_response = None\<rparr>"

text \<open>
  What \<^verbatim>\<open>Response.json()\<close> of \<^verbatim>\<open>requests\<close> 2.27 and later raises on a body that is
  not JSON: \<^verbatim>\<open>requests.exceptions.JSONDecodeError\<close>, a subclass of both
  \<^verbatim>\<open>RequestException\<close> (through \<^verbatim>\<open>InvalidJSONError\<close>) and \<^verbatim>\<open>ValueError\<close>
  (through \<^verbatim>\<open>json.JSONDecodeError\<close>).
\<close>

definition json_decode_error :: py_exception where
  "json_decode_error =
    \<lparr>exc_classes = [JSONDecodeError, RequestException, ValueError],
     exc_str = ''Expecting value: line 1 column 1 (char 0)'', exc_response = None\<rparr>"

text \<open>
  A stand-in for the interpreter's tables. It knows one string that is not ASCII:
  \<^verbatim>\<open>first\<close> spelled with the ligature U+FB01 (UTF-8 bytes EF AC 81), which CPython
  uppercases to \<^verbatim>\<open>FIRST\<close>.
\<close>

definition ligature_first :: string where
  "ligature_first = [CHR 0xEF, CHR 0xAC, CHR 0x81] @ ''rst''"

definition sample_python :: interpreter where
  "sample_python =
    \<lparr>unicode_upper = (\<lambda>s. if s = ligature_first then ''FIRST'' else s),
     unicode_lower = (\<lambda>s. s),
     unicode_repr = (\<lambda>s. [CHR 0x27] @ s @ [CHR 0x27])\<rparr>"

definition env_ok :: env where
  "env_ok = \<lparr>AMADEUS_API_KEY = Some ''key'', AMADEUS_API_SECRET = Some ''secret'',
             http = provider token_ok flights_ok hotels_ok offers_ok,
             python = sample_python\<rparr>"

text \<open>No credentials in the environment; the provider refuses the token request.\<close>

definition env_unset :: env where
  "env_unset =
    \<lparr>AMADEUS_API_KEY = None, AMADEUS_API_SECRET = None,
     http = provider (Responds (error_response 401 ''Unauthorized'' ''invalid_client''))
                     flights_ok hotels_ok offers_ok,
     python = sample_python\<rparr>"

text \<open>The token endpoint answers 200 with the JSON object \<^verbatim>\<open>{}\<close>.\<close>

definition env_no_token_field :: env where
  "env_no_token_field =
    env_ok\<lparr>http := provider (Responds (ok_response ''{}'' (PDict [])))
                             flights_ok hotels_ok offers_ok\<rparr>"

text \<open>The hotel list is empty / a list of bare identifiers / not JSON / \<^verbatim>\<open>null\<close> data.\<close>

definition env_no_hotels :: env where
  "env_no_hotels =
    env_ok\<lparr>http := provider token_ok flights_ok
                     (Responds (ok_response ''{\"data\": []}'' (PDict [(''data'', PList [])])))
                     offers_ok\<rparr>"

definition env_bare_ids :: env where
  "env_bare_ids =
    env_ok\<lparr>http := provider token_ok flights_ok
                     (Responds (ok_response ''{\"data\": [\"RTPAR001\"]}''
                                  (PDict [(''data'', PList [PStr ''RTPAR001''])])))
                     offers_ok\<rparr>"

definition env_hotels_not_json :: env where
  "env_hotels_not_json =
    env_ok\<lparr>http := provider token_ok flights_ok
                     (Responds ((ok_response ''<html></html>'' PNone)
                                  \<lparr>resp_json := Inl json_decode_error\<rparr>))
                     offers_ok\<rparr>"

definition env_null_data :: env where
  "env_null_data =
    env_ok\<lparr>http := provider token_ok flights_ok
                     (Responds (ok_response ''{\"data\": null}'' (PDict [(''data'', PNone)])))
                     offers_ok\<rparr>"

text \<open>A transport failure at the token, the hotel-list and the offers endpoint.\<close>

definition env_token_down :: env where
  "env_token_down =
    env_ok\<lparr>http := provider (Raises connection_error) flights_ok hotels_ok offers_ok\<rparr>"

definition env_list_down :: env where
  "env_list_down =
    env_ok\<lparr>http := provider token_ok flights_ok
                     (Responds (error_response 500 ''Internal Server Error'' ''unavailable''))
                     offers_ok\<rparr>"

definition env_offers_down :: env where
  "env_offers_down =
    env_ok\<lparr>http := provider token_ok flights_ok hotels_ok (Raises connection_error)\<rparr>"

text \<open>What \<^verbatim>\<open>raise_for_status\<close> raises for the response of \<open>env_list_down\<close>.\<close>

definition server_error :: py_exception where
  "server_error =
    \<lparr>exc_classes = [HTTPError, RequestException],
     exc_str = ''500 Server Error: Internal Server Error for url: https://test.api.amadeus.com/'',
     exc_response = Some (500, ''unavailable'')\<rparr>"

text \<open>
  The list holds a numeric identifier / is not JSON and \<^verbatim>\<open>json()\<close> raises a plain
  \<^verbatim>\<open>ValueError\<close> (as \<^verbatim>\<open>requests\<close> before 2.27 does).
\<close>

definition env_numeric_ids :: env where
  "env_numeric_ids =
    env_ok\<lparr>http := provider token_ok flights_ok
                     (Responds (ok_response ''{\"data\": [{\"hotelId\": 12345}]}''
                                  (PDict [(''data'', PList [PDict [(''hotelId'', PInt 12345)]])])))
                     offers_ok\<rparr>"

definition json_value_error :: py_exception where
  "json_value_error =
    \<lparr>exc_classes = [ValueError],
     exc_str = ''Expecting value: line 1 column 1 (char 0)'', exc_response = None\<rparr>"

definition env_hotels_value_error :: env where
  "env_hotels_value_error =
    env_ok\<lparr>http := provider token_ok flights_ok
                     (Responds ((ok_response ''<html></html>'' PNone)
                                  \<lparr>resp_json := Inl json_value_error\<rparr>))
                     offers_ok\<rparr>"

text \<open>A flight payload with every kind of JSON value.\<close>

definition flight_body :: pyval where
  "flight_body =
    PDict [(''data'', PList [PDict [(''id'', PStr ''1''), (''price'', PFloat ''12.5''),
                                    (''oneWay'', PBool False), (''seats'', PInt 9),
                                    (''note'', PNone), (''name'', PStr ''O'Hare'')]])]"

definition flight_body_text :: string where
  "flight_body_text =
    ''{\"data\": [{\"id\": \"1\", \"price\": 12.5, \"oneWay\": false, \"seats\": 9, \"note\": null, \"name\": \"O'Hare\"}]}''"

definition env_flights :: env where
  "env_flights =
    env_ok\<lparr>http := provider token_ok (Responds (ok_response flight_body_text flight_body))
                     hotels_ok offers_ok\<rparr>"

section \<open>Evaluation lemmas\<close>

lemmas py_defs = and_then_def received_def raise_for_status_def py_get_def py_iter_def
  py_contains_def isinstance_def type_error_def attribute_error_def quoted_def py_str_def
  slice_to_def py_join_def error_details_def response_ok_def

lemmas sample_defs = ok_response_def error_response_def token_ok_def flights_ok_def
  hotels_ok_def offers_ok_def connection_error_def json_decode_error_def env_ok_def
  env_unset_def env_no_token_field_def env_no_hotels_def env_bare_ids_def
  env_hotels_not_json_def env_null_data_def env_token_down_def env_list_down_def
  env_offers_down_def env_numeric_ids_def json_value_error_def env_hotels_value_error_def
  env_flights_def

lemmas hotel_defs = search_amadeus_hotels_def hotel_auth_def hotel_auth_try_def hotel_list_def
  hotel_list_try_def hotel_offers_def hotel_offers_try_def no_hotels_error_def

lemmas flight_defs = search_amadeus_flights_def get_amadeus_token_def token_try_def
  flight_try_def

lemma provider_token: "provider t f h ofs (token_request url env timeout) = t"
  by (simp add: provider_def token_request_def)

lemma provider_flights: "provider t f h ofs (flight_request env token q) = f"
  by (simp add: provider_def flight_request_def)

lemma provider_hotels:
  "use_test_env q \<Longrightarrow> provider t f h ofs (hotel_list_request env q access_token) = h"
  by (simp add: provider_def hotel_list_request_def HOTEL_LIST_URL_def base_def
        FLIGHT_OFFERS_URL_def sample_hotel_query_def)

lemma provider_offers:
  "use_test_env q \<Longrightarrow> provider t f h ofs (hotel_offers_request env q access_token ids) = ofs"
  by (simp add: provider_def hotel_offers_request_def HOTEL_LIST_URL_def HOTEL_OFFERS_URL_def
        base_def FLIGHT_OFFERS_URL_def sample_hotel_query_def)

lemma sample_test_env: "use_test_env sample_hotel_query"
  by (simp add: sample_hotel_query_def)

lemmas provider_simps = provider_token provider_flights provider_hotels provider_offers
  sample_test_env hotel_token_request_def

lemma config_error_has_Error: "py_contains (PStr CONFIG_ERROR) ''Error'' = Inr True"
  by (simp add: py_contains_def CONFIG_ERROR_def)

section \<open>Missing credentials\<close>

text \<open>
  The flight client asks \<^verbatim>\<open>_get_amadeus_token\<close> for a token, which refuses to call
  the provider when a credential is unset; the error string holds \<^verbatim>\<open>Error\<close>, so the
  client returns it and the log is unchanged.
\<close>

lemma flights_unset_credentials:
  "unset (AMADEUS_API_KEY env) \<or> unset (AMADEUS_API_SECRET env) \<Longrightarrow>
   search_amadeus_flights env q log = (Return (PStr CONFIG_ERROR), log)"
  by (simp add: search_amadeus_flights_def get_amadeus_token_def config_error_has_Error)

text \<open>
  The hotel client has no such gate: whatever the environment, its first action is the
  token POST.
\<close>

lemma hotels_always_post_token:
  "\<exists>result rest. search_amadeus_hotels env q [] = (result, hotel_token_request env q # rest)"
  by (auto simp: search_amadeus_hotels_def hotel_auth_def hotel_list_def hotel_offers_def
      split: sum.splits prod.splits if_splits)

text \<open>
  C1. With the API key or secret unset, both clients are to return a configuration error
  at once, with no outbound call. The flight client does (\<open>flights_unset_credentials\<close>).
  The hotel client does not look at the credentials: with both unset it still posts to the
  token endpoint, sending \<^verbatim>\<open>None\<close> as client id and secret, and what it returns is
  the provider's refusal, tagged \<^verbatim>\<open>auth\<close>.
\<close>

theorem hotels_unset_credentials_still_post:
  "search_amadeus_hotels env_unset sample_hotel_query [] =
     (Return (PDict [(''error'', PStr ''Amadeus authentication failed''),
                     (''details'', PStr ''401 Client Error: Unauthorized for url: https://test.api.amadeus.com/''),
                     (''step'', PStr ''auth'')]),
      [token_request ''https://test.api.amadeus.com/v1/security/oauth2/token''
         env_unset (Some 20)])"
  by (simp add: hotel_defs py_defs provider_simps sample_defs http_error_msg_def
        show_nat.simps digit_char_def HOTEL_TOKEN_URL_def base_def TIMEOUT_def
        sample_hotel_query_def)

section \<open>A token response without the token\<close>

text \<open>
  The hotel client checks the token: a 2xx response whose JSON object has no (or a falsy)
  \<^verbatim>\<open>access_token\<close> ends the call with an error tagged \<^verbatim>\<open>auth\<close>.
\<close>

lemma hotel_missing_token_field:
  assumes "http env (hotel_token_request env q) = Responds r"
      and "200 \<le> status_code r" "status_code r < 300"
      and "resp_json r = Inr (PDict kvs)" "map_of kvs ''access_token'' = None"
  shows "search_amadeus_hotels env q [] =
           (Return (PDict [(''error'', PStr ''No access_token in token response''),
                           (''details'', PStr (resp_text r)),
                           (''step'', PStr ''auth'')]),
            [hotel_token_request env q])"
  using assms by (simp add: search_amadeus_hotels_def hotel_auth_def hotel_auth_try_def
      and_then_def received_def raise_for_status_def py_get_def)

text \<open>
  C2. A 2xx token response with parseable JSON but no \<^verbatim>\<open>access_token\<close> is to give an
  error result on both paths. The hotel client does (\<open>hotel_missing_token_field\<close>). On the
  flight path \<^verbatim>\<open>_get_amadeus_token\<close> returns \<^verbatim>\<open>None\<close> as if it were the token, and
  \<^verbatim>\<open>"Error" in token\<close> then raises a \<^verbatim>\<open>TypeError\<close> that nothing catches: the caller
  gets an exception, not an error result.
\<close>

theorem flight_token_without_field:
  "get_amadeus_token env_no_token_field [] =
     (Return PNone, [token_request TOKEN_URL env_no_token_field None]) \<and>
   search_amadeus_flights env_no_token_field sample_flight_query [] =
     (Raise (type_error (''argument of type '' @ quoted ''NoneType'' @ '' is not iterable'')),
      [token_request TOKEN_URL env_no_token_field None])"
  by (simp add: flight_defs py_defs provider_simps sample_defs)

section \<open>Optional filters of the offers request\<close>

text \<open>
  What the offers request holds for the three optional filters, for every query:
  \<^verbatim>\<open>currency\<close> only when given, \<^verbatim>\<open>priceRange\<close> always (with the caller's value, also
  the empty one), \<^verbatim>\<open>view\<close> always (\<^verbatim>\<open>FULL\<close> when the caller gave none).
\<close>

lemma offer_params_currency:
  "map_of (offer_params q ids) ''currency'' =
     (if currency q = [] then None else Some (PStr (currency q)))"
  by (simp add: offer_params_def Let_def update_conv')

lemma offer_params_price_range:
  "map_of (offer_params q ids) ''priceRange'' = Some (PStr (price_range q))"
  by (simp add: offer_params_def Let_def update_conv')

lemma offer_params_view:
  "map_of (offer_params q ids) ''view'' = Some (PStr (if view q = [] then ''FULL'' else view q))"
  by (simp add: offer_params_def Let_def update_conv')

text \<open>
  C3. The offers request is to hold \<^verbatim>\<open>currency\<close>, \<^verbatim>\<open>priceRange\<close> and \<^verbatim>\<open>view\<close>
  exactly when the caller gave a non-empty value. The dictionary literal of the source
  already holds \<^verbatim>\<open>priceRange\<close> and \<^verbatim>\<open>view\<close>, so with both arguments empty the
  request still carries an empty \<^verbatim>\<open>priceRange\<close> and \<^verbatim>\<open>view=FULL\<close>.
\<close>

theorem offers_request_keeps_price_range_and_view:
  "req_params (last (snd (search_amadeus_hotels env_ok
       (sample_hotel_query\<lparr>price_range := [], view := []\<rparr>) []))) =
     [(''hotelIds'', PStr ''H1,H2''), (''checkInDate'', PStr ''2025-12-01''),
      (''checkOutDate'', PStr ''2025-12-05''), (''adults'', PInt 1),
      (''roomQuantity'', PInt 1), (''includeClosed'', PStr ''true''),
      (''bestRateOnly'', PStr ''false''), (''priceRange'', PStr []),
      (''view'', PStr ''FULL''), (''currency'', PStr ''EUR'')]"
  by (simp add: hotel_defs py_defs provider_simps sample_defs hotel_offers_request_def
        offer_params_def sample_hotel_query_def)

section \<open>An empty candidate list\<close>

text \<open>
  C4. When authentication and the hotel-list request succeed and no hotel identifier is
  left after filtering and truncation, the call returns the error tagged step 1 with the
  no-hotels message; the log holds the token and the list request only, and no request
  goes to the offers endpoint.
\<close>

theorem no_hotels_found_stops_chain:
  assumes "hotel_auth_try env q = Inr (token_resp, access_token)" "truthy access_token"
      and "hotel_list_try env q access_token = Inr []"
  shows "search_amadeus_hotels env q [] =
           (Return (PDict [(''error'', PStr (''No hotels found in '' @ city_code q
                                              @ ''. Check city code or increase radius.'')),
                           (''step'', PInt 1)]),
            [hotel_token_request env q, hotel_list_request env q access_token])
         \<and> HOTEL_OFFERS_URL q \<notin> set (map req_url (snd (search_amadeus_hotels env q [])))"
  using assms
  by (simp add: search_amadeus_hotels_def hotel_auth_def hotel_list_def no_hotels_error_def
        token_request_def hotel_token_request_def hotel_list_request_def
        HOTEL_TOKEN_URL_def HOTEL_LIST_URL_def HOTEL_OFFERS_URL_def)

lemma no_hotels_auth:
  "hotel_auth_try env_no_hotels sample_hotel_query
     = Inr (ok_response ''{\"access_token\": \"tok\"}'' (PDict [(''access_token'', PStr ''tok'')]),
            PStr ''tok'')"
  by (simp add: hotel_auth_try_def py_defs provider_simps sample_defs)

lemma no_hotels_list:
  "hotel_list_try env_no_hotels sample_hotel_query (PStr ''tok'') = Inr []"
  by (simp add: hotel_list_try_def py_defs provider_simps sample_defs)

theorem no_hotels_found_stops_chain_witness:
  "hotel_auth_try env_no_hotels sample_hotel_query
     = Inr (ok_response ''{\"access_token\": \"tok\"}'' (PDict [(''access_token'', PStr ''tok'')]),
            PStr ''tok'')
   \<and> truthy (PStr ''tok'')
   \<and> hotel_list_try env_no_hotels sample_hotel_query (PStr ''tok'') = Inr []
   \<and> search_amadeus_hotels env_no_hotels sample_hotel_query [] =
       (Return (PDict [(''error'', PStr ''No hotels found in PAR. Check city code or increase radius.''),
                       (''step'', PInt 1)]),
        [hotel_token_request env_no_hotels sample_hotel_query,
         hotel_list_request env_no_hotels sample_hotel_query (PStr ''tok'')])"
proof -
  have t: "truthy (PStr ''tok'')" by simp
  have c: "city_code sample_hotel_query = ''PAR''" by (simp add: sample_hotel_query_def)
  from no_hotels_found_stops_chain [OF no_hotels_auth t no_hotels_list] show ?thesis
    using no_hotels_auth no_hotels_list t c by simp
qed

section \<open>The stages of the hotel chain\<close>

text \<open>
  In every run the log is the token request, or the token and the list request, or all
  three, in this order and without repetition: each stage is attempted at most once, and
  a stage that ends the call is the last one to run.
\<close>

lemma hotel_requests_distinct:
  "hotel_token_request env q \<noteq> hotel_list_request env q t"
  "hotel_token_request env q \<noteq> hotel_offers_request env q t ids"
  "hotel_list_request env q t \<noteq> hotel_offers_request env q t' ids"
  by (simp_all add: hotel_token_request_def token_request_def hotel_list_request_def
        hotel_offers_request_def HOTEL_LIST_URL_def HOTEL_OFFERS_URL_def)

lemma hotel_log_shape:
  "\<exists>access_token joined.
       snd (search_amadeus_hotels env q []) = [hotel_token_request env q]
     \<or> snd (search_amadeus_hotels env q []) =
         [hotel_token_request env q, hotel_list_request env q access_token]
     \<or> snd (search_amadeus_hotels env q []) =
         [hotel_token_request env q, hotel_list_request env q access_token,
          hotel_offers_request env q access_token joined]"
  by (auto simp: search_amadeus_hotels_def hotel_auth_def hotel_list_def hotel_offers_def
      split: sum.splits prod.splits if_splits)

lemma hotel_log_distinct: "distinct (snd (search_amadeus_hotels env q []))"
  using hotel_log_shape [of env q] hotel_requests_distinct by auto

text \<open>An exception in a stage ends the call with the log as it stands at that stage.\<close>

lemma auth_exception_stops:
  "hotel_auth_try env q = Inl e \<Longrightarrow>
   snd (search_amadeus_hotels env q []) = [hotel_token_request env q]"
  by (simp add: search_amadeus_hotels_def hotel_auth_def)

lemma list_exception_stops:
  "hotel_auth_try env q = Inr (token_resp, access_token) \<Longrightarrow> truthy access_token \<Longrightarrow>
   hotel_list_try env q access_token = Inl e \<Longrightarrow>
   snd (search_amadeus_hotels env q []) =
     [hotel_token_request env q, hotel_list_request env q access_token]"
  by (simp add: search_amadeus_hotels_def hotel_auth_def hotel_list_def)

lemma offers_exception_stops:
  "hotel_auth_try env q = Inr (token_resp, access_token) \<Longrightarrow> truthy access_token \<Longrightarrow>
   hotel_list_try env q access_token = Inr hotel_ids \<Longrightarrow> hotel_ids \<noteq> [] \<Longrightarrow>
   py_join '','' hotel_ids = Inr joined \<Longrightarrow>
   hotel_offers_try env q access_token joined = Inl e \<Longrightarrow>
   snd (search_amadeus_hotels env q []) =
     [hotel_token_request env q, hotel_list_request env q access_token,
      hotel_offers_request env q access_token joined]"
  by (simp add: search_amadeus_hotels_def hotel_auth_def hotel_list_def hotel_offers_def)

text \<open>The failures that the handlers name are returned with the tag of their stage.\<close>

lemma auth_request_exception_tagged:
  "hotel_auth_try env q = Inl e \<Longrightarrow> isinstance e RequestException \<Longrightarrow>
   search_amadeus_hotels env q [] =
     (Return (PDict [(''error'', PStr ''Amadeus authentication failed''),
                     (''details'', PStr (error_details e)),
                     (''step'', PStr ''auth'')]),
      [hotel_token_request env q])"
  by (simp add: search_amadeus_hotels_def hotel_auth_def)

lemma list_request_exception_tagged:
  "hotel_auth_try env q = Inr (token_resp, access_token) \<Longrightarrow> truthy access_token \<Longrightarrow>
   hotel_list_try env q access_token = Inl e \<Longrightarrow> isinstance e RequestException \<Longrightarrow>
   search_amadeus_hotels env q [] =
     (Return (PDict [(''error'', PStr ''Hotel List API error''),
                     (''details'', PStr (error_details e)),
                     (''step'', PInt 1)]),
      [hotel_token_request env q, hotel_list_request env q access_token])"
  by (simp add: search_amadeus_hotels_def hotel_auth_def hotel_list_def)

lemma list_parse_exception_tagged:
  "hotel_auth_try env q = Inr (token_resp, access_token) \<Longrightarrow> truthy access_token \<Longrightarrow>
   hotel_list_try env q access_token = Inl e \<Longrightarrow> \<not> isinstance e RequestException \<Longrightarrow>
   isinstance e ValueError \<or> isinstance e KeyError \<or> isinstance e TypeError \<Longrightarrow>
   search_amadeus_hotels env q [] =
     (Return (PDict [(''error'', PStr (''Could not parse hotel IDs: '' @ exc_str e)),
                     (''step'', PInt 1)]),
      [hotel_token_request env q, hotel_list_request env q access_token])"
  by (simp add: search_amadeus_hotels_def hotel_auth_def hotel_list_def)

lemma offers_request_exception_tagged:
  "hotel_auth_try env q = Inr (token_resp, access_token) \<Longrightarrow> truthy access_token \<Longrightarrow>
   hotel_list_try env q access_token = Inr hotel_ids \<Longrightarrow> hotel_ids \<noteq> [] \<Longrightarrow>
   py_join '','' hotel_ids = Inr joined \<Longrightarrow>
   hotel_offers_try env q access_token joined = Inl e \<Longrightarrow> isinstance e RequestException \<Longrightarrow>
   search_amadeus_hotels env q [] =
     (Return (PDict [(''error'', PStr ''Hotel Offers API error''),
                     (''details'', PStr (error_details e)),
                     (''step'', PInt 2)]),
      [hotel_token_request env q, hotel_list_request env q access_token,
       hotel_offers_request env q access_token joined])"
  by (simp add: search_amadeus_hotels_def hotel_auth_def hotel_list_def hotel_offers_def)

text \<open>
  The same defect between the stages: the identifiers are joined outside every
  \<^verbatim>\<open>try\<close>, so a truthy identifier that is not a string makes \<^verbatim>\<open>",".join\<close> raise a
  \<^verbatim>\<open>TypeError\<close> that reaches the caller.
\<close>

lemma hotel_chain_join_failure:
  "search_amadeus_hotels env_numeric_ids sample_hotel_query [] =
     (Raise (type_error ''sequence item 0: expected str instance, int found''),
      [hotel_token_request env_numeric_ids sample_hotel_query,
       hotel_list_request env_numeric_ids sample_hotel_query (PStr ''tok'')])"
  by (simp add: hotel_defs py_defs provider_simps sample_defs sample_hotel_query_def
        show_nat.simps digit_char_def)

text \<open>
  C5. Each stage is to be attempted at most once, and a failure at any stage is to
  return at once an error tagged with the stage's discriminator, with no later stage
  run. The lemmas above give the first and the last part for every run, and the tag for
  the failures that the handlers name. The tag is missed where a stage raises an
  exception of another class, against the docstring of the function (on error the
  result includes \<^verbatim>\<open>error\<close> and \<^verbatim>\<open>step\<close>): a hotel list whose \<^verbatim>\<open>data\<close> holds bare
  identifier strings instead of objects makes \<^verbatim>\<open>h.get\<close> raise an
  \<^verbatim>\<open>AttributeError\<close>, which the parse handler of the list stage does not name; the
  stage fails and the caller gets the exception instead of an error tagged 1.
\<close>

theorem hotel_chain_untagged_failure:
  "hotel_list_try env_bare_ids sample_hotel_query (PStr ''tok'')
     = Inl (attribute_error (quoted ''str'' @ '' object has no attribute '' @ quoted ''get''))
   \<and> search_amadeus_hotels env_bare_ids sample_hotel_query [] =
       (Raise (attribute_error (quoted ''str'' @ '' object has no attribute '' @ quoted ''get'')),
        [hotel_token_request env_bare_ids sample_hotel_query,
         hotel_list_request env_bare_ids sample_hotel_query (PStr ''tok'')])"
  by (simp add: hotel_defs py_defs provider_simps sample_defs)

section \<open>Exceptions while extracting hotel identifiers\<close>

text \<open>
  C10. When the list stage raises a \<^verbatim>\<open>ValueError\<close>, \<^verbatim>\<open>KeyError\<close> or
  \<^verbatim>\<open>TypeError\<close>, the call does not propagate it: it returns a dictionary tagged step 1
  that reports the failure, and sends no offers request. The exception's text is in the
  dictionary: after \<^verbatim>\<open>Could not parse hotel IDs:\<close> under \<^verbatim>\<open>error\<close>, or, when the
  exception is also a \<^verbatim>\<open>RequestException\<close> (whose handler comes first), under
  \<^verbatim>\<open>details\<close> of the list-API error, provided the exception carries no response.
\<close>

theorem hotel_list_parse_failure_tagged:
  assumes "hotel_auth_try env q = Inr (token_resp, access_token)" "truthy access_token"
      and "hotel_list_try env q access_token = Inl e"
      and "isinstance e ValueError \<or> isinstance e KeyError \<or> isinstance e TypeError"
  shows "search_amadeus_hotels env q [] =
           (Return (PDict (if isinstance e RequestException
                           then [(''error'', PStr ''Hotel List API error''),
                                 (''details'', PStr (error_details e)),
                                 (''step'', PInt 1)]
                           else [(''error'', PStr (''Could not parse hotel IDs: '' @ exc_str e)),
                                 (''step'', PInt 1)])),
            [hotel_token_request env q, hotel_list_request env q access_token])
         \<and> (\<exists>d. fst (search_amadeus_hotels env q []) = Return (PDict d)
                \<and> map_of d ''step'' = Some (PInt 1)
                \<and> (exc_response e = None \<longrightarrow>
                     map_of d ''error'' = Some (PStr (''Could not parse hotel IDs: '' @ exc_str e))
                   \<or> map_of d ''details'' = Some (PStr (exc_str e))))
         \<and> HOTEL_OFFERS_URL q \<notin> set (map req_url (snd (search_amadeus_hotels env q [])))"
proof -
  have r: "search_amadeus_hotels env q [] =
           (Return (PDict (if isinstance e RequestException
                           then [(''error'', PStr ''Hotel List API error''),
                                 (''details'', PStr (error_details e)),
                                 (''step'', PInt 1)]
                           else [(''error'', PStr (''Could not parse hotel IDs: '' @ exc_str e)),
                                 (''step'', PInt 1)])),
            [hotel_token_request env q, hotel_list_request env q access_token])"
  proof (cases "isinstance e RequestException")
    case True
    with assms show ?thesis by (simp add: list_request_exception_tagged)
  next
    case False
    with assms show ?thesis by (simp add: list_parse_exception_tagged)
  qed
  have u: "HOTEL_OFFERS_URL q \<notin> set (map req_url
             [hotel_token_request env q, hotel_list_request env q access_token])"
    by (simp add: token_request_def hotel_token_request_def hotel_list_request_def
          HOTEL_TOKEN_URL_def HOTEL_LIST_URL_def HOTEL_OFFERS_URL_def)
  show ?thesis
    unfolding r using u by (auto simp: error_details_def)
qed

lemma null_data_auth:
  "hotel_auth_try env_null_data sample_hotel_query
     = Inr (ok_response ''{\"access_token\": \"tok\"}'' (PDict [(''access_token'', PStr ''tok'')]),
            PStr ''tok'')"
  by (simp add: hotel_auth_try_def py_defs provider_simps sample_defs)

lemma null_data_list:
  "hotel_list_try env_null_data sample_hotel_query (PStr ''tok'')
     = Inl (type_error (quoted ''NoneType'' @ '' object is not iterable''))"
  by (simp add: hotel_list_try_def py_defs provider_simps sample_defs)

lemma not_json_auth:
  "hotel_auth_try env_hotels_not_json sample_hotel_query
     = Inr (ok_response ''{\"access_token\": \"tok\"}'' (PDict [(''access_token'', PStr ''tok'')]),
            PStr ''tok'')"
  by (simp add: hotel_auth_try_def py_defs provider_simps sample_defs)

lemma not_json_list:
  "hotel_list_try env_hotels_not_json sample_hotel_query (PStr ''tok'') = Inl json_decode_error"
  by (simp add: hotel_list_try_def py_defs provider_simps sample_defs)

lemma value_error_auth:
  "hotel_auth_try env_hotels_value_error sample_hotel_query
     = Inr (ok_response ''{\"access_token\": \"tok\"}'' (PDict [(''access_token'', PStr ''tok'')]),
            PStr ''tok'')"
  by (simp add: hotel_auth_try_def py_defs provider_simps sample_defs)

lemma value_error_list:
  "hotel_list_try env_hotels_value_error sample_hotel_query (PStr ''tok'') = Inl json_value_error"
  by (simp add: hotel_list_try_def py_defs provider_simps sample_defs)

theorem hotel_list_parse_failure_tagged_witness:
  "(hotel_list_try env_null_data sample_hotel_query (PStr ''tok'')
      = Inl (type_error (quoted ''NoneType'' @ '' object is not iterable''))
    \<and> isinstance (type_error (quoted ''NoneType'' @ '' object is not iterable'')) TypeError
    \<and> search_amadeus_hotels env_null_data sample_hotel_query [] =
        (Return (PDict [(''error'', PStr (''Could not parse hotel IDs: ''
                                           @ quoted ''NoneType'' @ '' object is not iterable'')),
                        (''step'', PInt 1)]),
         [hotel_token_request env_null_data sample_hotel_query,
          hotel_list_request env_null_data sample_hotel_query (PStr ''tok'')]))
   \<and> (hotel_list_try env_hotels_value_error sample_hotel_query (PStr ''tok'')
         = Inl json_value_error
      \<and> isinstance json_value_error ValueError
      \<and> search_amadeus_hotels env_hotels_value_error sample_hotel_query [] =
          (Return (PDict [(''error'', PStr ''Could not parse hotel IDs: Expecting value: line 1 column 1 (char 0)''),
                          (''step'', PInt 1)]),
           [hotel_token_request env_hotels_value_error sample_hotel_query,
            hotel_list_request env_hotels_value_error sample_hotel_query (PStr ''tok'')]))
   \<and> (hotel_list_try env_hotels_not_json sample_hotel_query (PStr ''tok'')
         = Inl json_decode_error
      \<and> isinstance json_decode_error ValueError
      \<and> search_amadeus_hotels env_hotels_not_json sample_hotel_query [] =
          (Return (PDict [(''error'', PStr ''Hotel List API error''),
                          (''details'', PStr ''Expecting value: line 1 column 1 (char 0)''),
                          (''step'', PInt 1)]),
           [hotel_token_request env_hotels_not_json sample_hotel_query,
            hotel_list_request env_hotels_not_json sample_hotel_query (PStr ''tok'')]))"
proof -
  have t: "truthy (PStr ''tok'')" by simp
  have i1: "isinstance (type_error (quoted ''NoneType'' @ '' object is not iterable'')) ValueError
         \<or> isinstance (type_error (quoted ''NoneType'' @ '' object is not iterable'')) KeyError
         \<or> isinstance (type_error (quoted ''NoneType'' @ '' object is not iterable'')) TypeError"
    by (simp add: isinstance_def type_error_def)
  have i2: "isinstance json_value_error ValueError \<or> isinstance json_value_error KeyError
         \<or> isinstance json_value_error TypeError"
    by (simp add: isinstance_def json_value_error_def)
  have i3: "isinstance json_decode_error ValueError \<or> isinstance json_decode_error KeyError
         \<or> isinstance json_decode_error TypeError"
    by (simp add: isinstance_def json_decode_error_def)
  have a: "search_amadeus_hotels env_null_data sample_hotel_query [] =
        (Return (PDict [(''error'', PStr (''Could not parse hotel IDs: ''
                                           @ quoted ''NoneType'' @ '' object is not iterable'')),
                        (''step'', PInt 1)]),
         [hotel_token_request env_null_data sample_hotel_query,
          hotel_list_request env_null_data sample_hotel_query (PStr ''tok'')])"
    using hotel_list_parse_failure_tagged [OF null_data_auth t null_data_list i1]
    by (simp add: isinstance_def type_error_def)
  have b: "search_amadeus_hotels env_hotels_value_error sample_hotel_query [] =
          (Return (PDict [(''error'', PStr ''Could not parse hotel IDs: Expecting value: line 1 column 1 (char 0)''),
                          (''step'', PInt 1)]),
           [hotel_token_request env_hotels_value_error sample_hotel_query,
            hotel_list_request env_hotels_value_error sample_hotel_query (PStr ''tok'')])"
    using hotel_list_parse_failure_tagged [OF value_error_auth t value_error_list i2]
    by (simp add: isinstance_def json_value_error_def)
  have c: "search_amadeus_hotels env_hotels_not_json sample_hotel_query [] =
          (Return (PDict [(''error'', PStr ''Hotel List API error''),
                          (''details'', PStr ''Expecting value: line 1 column 1 (char 0)''),
                          (''step'', PInt 1)]),
           [hotel_token_request env_hotels_not_json sample_hotel_query,
            hotel_list_request env_hotels_not_json sample_hotel_query (PStr ''tok'')])"
    using hotel_list_parse_failure_tagged [OF not_json_auth t not_json_list i3]
    by (simp add: isinstance_def json_decode_error_def error_details_def)
  show ?thesis
    using a b c null_data_list value_error_list not_json_list
    by (simp add: isinstance_def type_error_def json_value_error_def json_decode_error_def)
qed

section \<open>Selecting hotel identifiers\<close>

text \<open>
  The identifiers that the comprehension collects are the \<^verbatim>\<open>hotelId\<close> fields of a
  subsequence of the entries, entry by entry and in the order of the entries.
\<close>

lemma collect_hotel_ids_subseq:
  "collect_hotel_ids hs = Inr ids \<Longrightarrow>
   \<exists>sel. subseq sel hs
       \<and> list_all2 (\<lambda>h i. \<exists>fields. h = PDict fields \<and> map_of fields ''hotelId'' = Some i)
            sel ids"
proof (induction hs arbitrary: ids)
  case Nil
  then show ?case by simp
next
  case (Cons h hs)
  from Cons.prems obtain v ids' where
    v: "py_get h ''hotelId'' PNone = Inr v" and
    rest: "collect_hotel_ids hs = Inr ids'" and
    ids: "ids = (if truthy v then v # ids' else ids')"
    by (auto simp: and_then_def split: sum.splits)
  from Cons.IH [OF rest] obtain sel where
    sel: "subseq sel hs"
      "list_all2 (\<lambda>h i. \<exists>fields. h = PDict fields \<and> map_of fields ''hotelId'' = Some i)
         sel ids'"
    by blast
  show ?case
  proof (cases "truthy v")
    case True
    with v have "\<exists>fields. h = PDict fields \<and> map_of fields ''hotelId'' = Some v"
      by (auto simp: py_get_def split: pyval.splits option.splits)
    with True sel ids have "subseq (h # sel) (h # hs)"
      "list_all2 (\<lambda>h i. \<exists>fields. h = PDict fields \<and> map_of fields ''hotelId'' = Some i)
         (h # sel) ids"
      by simp_all
    then show ?thesis by blast
  next
    case False
    with sel ids have "subseq sel (h # hs)"
      "list_all2 (\<lambda>h i. \<exists>fields. h = PDict fields \<and> map_of fields ''hotelId'' = Some i)
         sel ids"
      by (simp_all add: list_emb_Cons)
    then show ?thesis by blast
  qed
qed

lemma slice_to_take: "\<exists>k. slice_to xs n = take k xs"
  by (auto simp: slice_to_def)

lemma slice_to_length: "0 \<le> n \<Longrightarrow> int (length (slice_to xs n)) \<le> n"
  by (simp add: slice_to_def)

lemma slice_subseq:
  assumes "subseq sel hs" "list_all2 P sel all_ids"
  shows "\<exists>sel'. subseq sel' hs \<and> list_all2 P sel' (slice_to all_ids n)"
proof -
  obtain k where k: "slice_to all_ids n = take k all_ids"
    using slice_to_take by blast
  have "subseq (take k sel) sel"
    by (rule prefix_imp_subseq) (rule take_is_prefix)
  from this assms(1) have "subseq (take k sel) hs" by (rule subseq_order.trans)
  moreover from assms(2) have "list_all2 P (take k sel) (take k all_ids)"
    by (rule list_all2_takeI)
  ultimately show ?thesis using k by auto
qed

text \<open>
  C8. After a successful hotel-list response, and for a maximum \<^verbatim>\<open>max_hotels\<close> that is
  not negative, at most \<^verbatim>\<open>max_hotels\<close> identifiers are selected, and the selected
  identifiers are the \<^verbatim>\<open>hotelId\<close> fields of a subsequence of the entries of the
  response, so they appear in the relative order of the response.
\<close>

theorem hotel_ids_bounded_in_order:
  assumes "0 \<le> max_hotels q"
      and "http env (hotel_list_request env q access_token) = Responds list_resp"
      and "resp_json list_resp = Inr body"
      and "hotel_list_try env q access_token = Inr hotel_ids"
  shows "int (length hotel_ids) \<le> max_hotels q
       \<and> (\<exists>hotels_data sel.
             and_then (py_get body ''data'' (PList [])) py_iter = Inr hotels_data
           \<and> subseq sel hotels_data
           \<and> list_all2 (\<lambda>h i. \<exists>fields. h = PDict fields \<and> map_of fields ''hotelId'' = Some i)
                sel hotel_ids)"
proof -
  from assms(2-4) obtain hotels_data all_ids where
    data: "and_then (py_get body ''data'' (PList [])) py_iter = Inr hotels_data" and
    coll: "collect_hotel_ids hotels_data = Inr all_ids" and
    ids: "hotel_ids = slice_to all_ids (max_hotels q)"
    by (auto simp: hotel_list_try_def and_then_def received_def raise_for_status_def
        split: sum.splits if_splits)
  from collect_hotel_ids_subseq [OF coll] obtain sel0 where
    "subseq sel0 hotels_data"
    "list_all2 (\<lambda>h i. \<exists>fields. h = PDict fields \<and> map_of fields ''hotelId'' = Some i)
       sel0 all_ids"
    by blast
  from slice_subseq [OF this, of "max_hotels q"] ids obtain sel where
    "subseq sel hotels_data"
    "list_all2 (\<lambda>h i. \<exists>fields. h = PDict fields \<and> map_of fields ''hotelId'' = Some i)
       sel hotel_ids"
    by blast
  with data ids assms(1) show ?thesis
    by (auto simp: slice_to_length)
qed

lemma one_hotel_list:
  "hotel_list_try env_ok (sample_hotel_query\<lparr>max_hotels := 1\<rparr>) (PStr ''tok'') = Inr [PStr ''H1'']"
  by (simp add: hotel_list_try_def py_defs provider_simps sample_defs sample_hotel_query_def)

lemma env_ok_hotels:
  "use_test_env q \<Longrightarrow> http env_ok (hotel_list_request env q access_token) = hotels_ok"
  by (simp add: env_ok_def provider_hotels)

theorem hotel_ids_bounded_in_order_witness:
  "0 \<le> max_hotels (sample_hotel_query\<lparr>max_hotels := 1\<rparr>)
   \<and> http env_ok (hotel_list_request env_ok (sample_hotel_query\<lparr>max_hotels := 1\<rparr>) (PStr ''tok''))
       = hotels_ok
   \<and> hotel_list_try env_ok (sample_hotel_query\<lparr>max_hotels := 1\<rparr>) (PStr ''tok'') = Inr [PStr ''H1'']
   \<and> int (length [PStr ''H1'']) \<le> max_hotels (sample_hotel_query\<lparr>max_hotels := 1\<rparr>)
   \<and> (\<exists>sel. subseq sel [PDict [(''hotelId'', PStr ''H1'')], PDict [(''name'', PStr ''Ritz'')],
                          PDict [(''hotelId'', PStr ''H2'')]]
           \<and> list_all2 (\<lambda>h i. \<exists>fields. h = PDict fields \<and> map_of fields ''hotelId'' = Some i)
                sel [PStr ''H1''])"
proof -
  have m: "0 \<le> max_hotels (sample_hotel_query\<lparr>max_hotels := 1\<rparr>)" by simp
  have h: "http env_ok (hotel_list_request env_ok (sample_hotel_query\<lparr>max_hotels := 1\<rparr>) (PStr ''tok''))
             = Responds (ok_response
      ''{\"data\": [{\"hotelId\": \"H1\"}, {\"name\": \"Ritz\"}, {\"hotelId\": \"H2\"}]}''
      (PDict [(''data'', PList [PDict [(''hotelId'', PStr ''H1'')],
                                PDict [(''name'', PStr ''Ritz'')],
                                PDict [(''hotelId'', PStr ''H2'')]])]))"
    by (simp add: env_ok_hotels sample_test_env hotels_ok_def)
  have j: "resp_json (ok_response
      ''{\"data\": [{\"hotelId\": \"H1\"}, {\"name\": \"Ritz\"}, {\"hotelId\": \"H2\"}]}''
      (PDict [(''data'', PList [PDict [(''hotelId'', PStr ''H1'')],
                                PDict [(''name'', PStr ''Ritz'')],
                                PDict [(''hotelId'', PStr ''H2'')]])]))
      = Inr (PDict [(''data'', PList [PDict [(''hotelId'', PStr ''H1'')],
                                PDict [(''name'', PStr ''Ritz'')],
                                PDict [(''hotelId'', PStr ''H2'')]])])"
    by (simp add: ok_response_def)
  from hotel_ids_bounded_in_order [OF m h j one_hotel_list] show ?thesis
    using one_hotel_list
    by (simp add: env_ok_hotels sample_test_env and_then_def py_get_def py_iter_def)
qed

section \<open>The flight-offers request\<close>

text \<open>The only GET request the flight client sends is the flight-offers request.\<close>

lemma flights_log_get:
  "r \<in> set (snd (search_amadeus_flights env q [])) \<Longrightarrow> req_method r = GET \<Longrightarrow>
   \<exists>token. r = flight_request env token q"
  by (auto simp: search_amadeus_flights_def get_amadeus_token_def token_request_def
      split: sum.splits outcome.splits bool.splits if_splits)

lemma flight_request_params: "req_params (flight_request env token q) = flight_params env q"
  by (simp add: flight_request_def)

text \<open>The parameters, key by key: the last update of a key decides.\<close>

lemma flight_params_lookup:
  "map_of (flight_params env q) k =
     (if (\<exists>tc. travel_class q = Some tc \<and> tc \<noteq> []
               \<and> upper (python env) tc
                    \<in> set [''ECONOMY'', ''PREMIUM_ECONOMY'', ''BUSINESS'', ''FIRST''])
          \<and> k = ''travelClass''
      then Some (PStr (upper (python env) (the (travel_class q))))
      else if infants q > 0 \<and> k = ''infants'' then Some (PInt (infants q))
      else if children q > 0 \<and> k = ''children'' then Some (PInt (children q))
      else if \<not> unset (return_date q) \<and> k = ''returnDate'' then Some (opt_str (return_date q))
      else map_of [(''originLocationCode'', PStr (origin_location_code q)),
                   (''destinationLocationCode'', PStr (destination_location_code q)),
                   (''departureDate'', PStr (departure_date q)),
                   (''adults'', PInt (adults q)),
                   (''nonStop'', PStr (lower (python env)
                                         (py_str (python env) (PBool (non_stop q))))),
                   (''max'', PInt (max_results q))] k)"
proof -
  define p0 where "p0 =
     [(''originLocationCode'', PStr (origin_location_code q)),
      (''destinationLocationCode'', PStr (destination_location_code q)),
      (''departureDate'', PStr (departure_date q)),
      (''adults'', PInt (adults q)),
      (''nonStop'', PStr (lower (python env) (py_str (python env) (PBool (non_stop q))))),
      (''max'', PInt (max_results q))]"
  define p1 where "p1 =
     (if \<not> unset (return_date q)
      then AList.update ''returnDate'' (opt_str (return_date q)) p0 else p0)"
  define p2 where "p2 =
     (if children q > 0 then AList.update ''children'' (PInt (children q)) p1 else p1)"
  define p3 where "p3 =
     (if infants q > 0 then AList.update ''infants'' (PInt (infants q)) p2 else p2)"
  have fp: "flight_params env q =
     (case travel_class q of
        None \<Rightarrow> p3
      | Some tc \<Rightarrow>
          if tc \<noteq> []
          then (if upper (python env) tc
                     \<in> set [''ECONOMY'', ''PREMIUM_ECONOMY'', ''BUSINESS'', ''FIRST'']
                then AList.update ''travelClass'' (PStr (upper (python env) tc)) p3
                else p3)
          else p3)"
    unfolding flight_params_def Let_def p3_def p2_def p1_def p0_def by (rule refl)
  have m1: "map_of p1 k =
     (if \<not> unset (return_date q) \<and> k = ''returnDate'' then Some (opt_str (return_date q))
      else map_of p0 k)"
    unfolding p1_def by (simp add: update_conv')
  have m2: "map_of p2 k =
     (if children q > 0 \<and> k = ''children'' then Some (PInt (children q)) else map_of p1 k)"
    unfolding p2_def by (simp add: update_conv')
  have m3: "map_of p3 k =
     (if infants q > 0 \<and> k = ''infants'' then Some (PInt (infants q)) else map_of p2 k)"
    unfolding p3_def by (simp add: update_conv')
  have m4: "map_of (flight_params env q) k =
     (if (\<exists>tc. travel_class q = Some tc \<and> tc \<noteq> []
               \<and> upper (python env) tc
                    \<in> set [''ECONOMY'', ''PREMIUM_ECONOMY'', ''BUSINESS'', ''FIRST''])
          \<and> k = ''travelClass''
      then Some (PStr (upper (python env) (the (travel_class q))))
      else map_of p3 k)"
    unfolding fp by (cases "travel_class q") (simp_all add: update_conv')
  show ?thesis
    unfolding m4 m3 m2 m1 p0_def by (rule refl)
qed

lemma upper_Nil: "upper py [] = []"
  by (simp add: upper_def is_ascii_def)

lemma flight_params_travel_class:
  "map_of (flight_params env q) ''travelClass'' =
     (case travel_class q of
        None \<Rightarrow> None
      | Some tc \<Rightarrow>
          if upper (python env) tc \<in> set [''ECONOMY'', ''PREMIUM_ECONOMY'', ''BUSINESS'', ''FIRST'']
          then Some (PStr (upper (python env) tc)) else None)"
  by (cases "travel_class q") (auto simp: flight_params_lookup upper_Nil)

lemma flight_params_children:
  "map_of (flight_params env q) ''children'' =
     (if children q > 0 then Some (PInt (children q)) else None)"
  by (simp add: flight_params_lookup)

lemma flight_params_infants:
  "map_of (flight_params env q) ''infants'' =
     (if infants q > 0 then Some (PInt (infants q)) else None)"
  by (simp add: flight_params_lookup)

lemma flight_params_unrecognised:
  "upper (python env) tc \<notin> set [''ECONOMY'', ''PREMIUM_ECONOMY'', ''BUSINESS'', ''FIRST''] \<Longrightarrow>
   flight_params env (q\<lparr>travel_class := Some tc\<rparr>) = flight_params env (q\<lparr>travel_class := None\<rparr>)"
  unfolding flight_params_def by (simp cong: if_cong)

lemma flights_depend_on_params:
  "flight_params env q = flight_params env q' \<Longrightarrow>
   search_amadeus_flights env q log = search_amadeus_flights env q' log"
  by (auto simp: search_amadeus_flights_def flight_try_def flight_request_def
      split: prod.splits outcome.splits sum.splits bool.splits)

text \<open>
  Uppercasing a string of ASCII characters gives a name without lower-case letters
  exactly when the string is that name up to the case of its letters.
\<close>

lemma upper_char_eq:
  assumes "b \<notin> set ''abcdefghijklmnopqrstuvwxyz''"
  shows "(upper_char a = b) =
         (a = b \<or> (a, b) \<in> set (zip ''abcdefghijklmnopqrstuvwxyz'' ''ABCDEFGHIJKLMNOPQRSTUVWXYZ''))"
proof (cases "map_of (zip ''abcdefghijklmnopqrstuvwxyz'' ''ABCDEFGHIJKLMNOPQRSTUVWXYZ'') a")
  case None
  then have "a \<notin> fst ` set (zip ''abcdefghijklmnopqrstuvwxyz'' ''ABCDEFGHIJKLMNOPQRSTUVWXYZ'')"
    by (rule iffD1 [OF map_of_eq_None_iff])
  then have "(a, b) \<notin> set (zip ''abcdefghijklmnopqrstuvwxyz'' ''ABCDEFGHIJKLMNOPQRSTUVWXYZ'')"
    by force
  with None show ?thesis
    by (simp only: upper_char_def option.case simp_thms)
next
  case (Some u)
  then have in_zip: "(a, u) \<in> set (zip ''abcdefghijklmnopqrstuvwxyz'' ''ABCDEFGHIJKLMNOPQRSTUVWXYZ'')"
    by (rule map_of_SomeD)
  then have "a \<in> set ''abcdefghijklmnopqrstuvwxyz''"
    by (rule set_zip_leftD)
  with assms have ab: "a \<noteq> b" by blast
  have d: "distinct (map fst (zip ''abcdefghijklmnopqrstuvwxyz'' ''ABCDEFGHIJKLMNOPQRSTUVWXYZ''))"
    by simp
  have "(a, b) \<in> set (zip ''abcdefghijklmnopqrstuvwxyz'' ''ABCDEFGHIJKLMNOPQRSTUVWXYZ'') \<Longrightarrow> u = b"
    using map_of_is_SomeI [OF d] Some by fastforce
  with Some in_zip ab show ?thesis
    by (auto simp only: upper_char_def option.case)
qed

lemma map_upper_char_eq:
  "set cls \<inter> set ''abcdefghijklmnopqrstuvwxyz'' = {} \<Longrightarrow>
   (map upper_char tc = cls) =
   list_all2 (\<lambda>a b. a = b \<or> (a, b) \<in> set (zip ''abcdefghijklmnopqrstuvwxyz''
                                                ''ABCDEFGHIJKLMNOPQRSTUVWXYZ'')) tc cls"
proof (induction tc arbitrary: cls)
  case Nil
  then show ?case by auto
next
  case (Cons a tc)
  show ?case
  proof (cases cls)
    case Nil
    then show ?thesis by simp
  next
    case (Cons b cls')
    with Cons.prems have b: "b \<notin> set ''abcdefghijklmnopqrstuvwxyz''"
      and rest: "set cls' \<inter> set ''abcdefghijklmnopqrstuvwxyz'' = {}"
      by auto
    from Cons.IH [OF rest] upper_char_eq [OF b, of a] Cons show ?thesis
      by (simp only: list.map list.inject list_all2_Cons)
  qed
qed

lemma class_names_upper:
  "cls \<in> set [''ECONOMY'', ''PREMIUM_ECONOMY'', ''BUSINESS'', ''FIRST''] \<Longrightarrow>
   set cls \<inter> set ''abcdefghijklmnopqrstuvwxyz'' = {}"
  by auto

lemma upper_ascii_class:
  assumes "list_all (\<lambda>c. (of_char c :: nat) < 128) tc"
      and "cls \<in> set [''ECONOMY'', ''PREMIUM_ECONOMY'', ''BUSINESS'', ''FIRST'']"
  shows "(upper py tc = cls) =
         list_all2 (\<lambda>a b. a = b \<or> (a, b) \<in> set (zip ''abcdefghijklmnopqrstuvwxyz''
                                                      ''ABCDEFGHIJKLMNOPQRSTUVWXYZ'')) tc cls"
  using assms(1) map_upper_char_eq [OF class_names_upper [OF assms(2)], of tc]
  by (simp only: upper_def is_ascii_def if_True)

lemma env_ok_token:
  "get_amadeus_token env_ok [] = (Return (PStr ''tok''), [token_request TOKEN_URL env_ok None])"
  by (simp add: get_amadeus_token_def token_try_def py_defs provider_simps sample_defs)

lemma tok_no_Error: "py_contains (PStr ''tok'') ''Error'' = Inr False"
  by (simp add: py_contains_def)

lemma env_ok_flights: "http env_ok (flight_request env token q) = flights_ok"
  by (simp add: env_ok_def provider_flights)

lemma env_ok_flight_log:
  "snd (search_amadeus_flights env_ok q []) =
     [token_request TOKEN_URL env_ok None, flight_request env_ok (PStr ''tok'') q]"
  by (simp add: search_amadeus_flights_def env_ok_token tok_no_Error)

lemma env_ok_python: "python env_ok = sample_python"
  by (simp add: env_ok_def)

lemma sample_upper:
  "upper sample_python ''economy'' = ''ECONOMY''"
  "upper sample_python ''Premium_Economy'' = ''PREMIUM_ECONOMY''"
  "upper sample_python ''BUSINESS'' = ''BUSINESS''"
  "upper sample_python ''fIrSt'' = ''FIRST''"
  "upper sample_python ''FOO'' = ''FOO''"
  "upper sample_python ligature_first = ''FIRST''"
  by (simp_all add: upper_def is_ascii_def upper_char_def sample_python_def ligature_first_def)

text \<open>
  C6. In every flight search, the flight-offers request holds \<^verbatim>\<open>travelClass\<close> exactly
  when the caller's \<^verbatim>\<open>travel_class\<close>, uppercased, is one of \<^verbatim>\<open>ECONOMY\<close>,
  \<^verbatim>\<open>PREMIUM_ECONOMY\<close>, \<^verbatim>\<open>BUSINESS\<close>, \<^verbatim>\<open>FIRST\<close>, and then with the uppercased value.
  Any other travel class is dropped without rejecting the search: the search does exactly
  what it does with no travel class. For a travel class of ASCII characters, the
  uppercased value is one of the four names exactly when the travel class is that name up
  to the case of its letters.
\<close>

theorem travel_class_sent_iff_recognised:
  "(\<forall>r \<in> set (snd (search_amadeus_flights env q [])). req_method r = GET \<longrightarrow>
       map_of (req_params r) ''travelClass'' =
         (case travel_class q of
            None \<Rightarrow> None
          | Some tc \<Rightarrow>
              if upper (python env) tc
                   \<in> set [''ECONOMY'', ''PREMIUM_ECONOMY'', ''BUSINESS'', ''FIRST'']
              then Some (PStr (upper (python env) tc)) else None))
   \<and> (\<forall>tc. upper (python env) tc
               \<notin> set [''ECONOMY'', ''PREMIUM_ECONOMY'', ''BUSINESS'', ''FIRST''] \<longrightarrow>
         search_amadeus_flights env (q\<lparr>travel_class := Some tc\<rparr>) [] =
         search_amadeus_flights env (q\<lparr>travel_class := None\<rparr>) [])
   \<and> (\<forall>tc cls. list_all (\<lambda>c. (of_char c :: nat) < 128) tc
               \<and> cls \<in> set [''ECONOMY'', ''PREMIUM_ECONOMY'', ''BUSINESS'', ''FIRST''] \<longrightarrow>
         (upper (python env) tc = cls) =
         list_all2 (\<lambda>a b. a = b \<or> (a, b) \<in> set (zip ''abcdefghijklmnopqrstuvwxyz''
                                                      ''ABCDEFGHIJKLMNOPQRSTUVWXYZ'')) tc cls)"
proof (intro conjI ballI allI impI)
  fix r
  assume "r \<in> set (snd (search_amadeus_flights env q []))" "req_method r = GET"
  then obtain token where "r = flight_request env token q"
    using flights_log_get by blast
  then show "map_of (req_params r) ''travelClass'' =
         (case travel_class q of
            None \<Rightarrow> None
          | Some tc \<Rightarrow>
              if upper (python env) tc
                   \<in> set [''ECONOMY'', ''PREMIUM_ECONOMY'', ''BUSINESS'', ''FIRST'']
              then Some (PStr (upper (python env) tc)) else None)"
    by (simp only: flight_request_params flight_params_travel_class)
next
  fix tc
  assume "upper (python env) tc \<notin> set [''ECONOMY'', ''PREMIUM_ECONOMY'', ''BUSINESS'', ''FIRST'']"
  then show "search_amadeus_flights env (q\<lparr>travel_class := Some tc\<rparr>) [] =
         search_amadeus_flights env (q\<lparr>travel_class := None\<rparr>) []"
    by (intro flights_depend_on_params flight_params_unrecognised)
next
  fix tc cls
  assume "list_all (\<lambda>c. (of_char c :: nat) < 128) tc
        \<and> cls \<in> set [''ECONOMY'', ''PREMIUM_ECONOMY'', ''BUSINESS'', ''FIRST'']"
  then show "(upper (python env) tc = cls) =
         list_all2 (\<lambda>a b. a = b \<or> (a, b) \<in> set (zip ''abcdefghijklmnopqrstuvwxyz''
                                                      ''ABCDEFGHIJKLMNOPQRSTUVWXYZ'')) tc cls"
    using upper_ascii_class by blast
qed

theorem travel_class_sent_iff_recognised_witness:
  "flight_request env_ok (PStr ''tok'') sample_flight_query
     \<in> set (snd (search_amadeus_flights env_ok sample_flight_query []))
   \<and> req_method (flight_request env_ok (PStr ''tok'') sample_flight_query) = GET
   \<and> travel_class sample_flight_query = Some ''economy''
   \<and> map_of (req_params (flight_request env_ok (PStr ''tok'') sample_flight_query)) ''travelClass''
       = Some (PStr ''ECONOMY'')
   \<and> map_of (req_params (flight_request env_ok (PStr ''tok'')
                (sample_flight_query\<lparr>travel_class := Some ''Premium_Economy''\<rparr>))) ''travelClass''
       = Some (PStr ''PREMIUM_ECONOMY'')
   \<and> map_of (req_params (flight_request env_ok (PStr ''tok'')
                (sample_flight_query\<lparr>travel_class := Some ''BUSINESS''\<rparr>))) ''travelClass''
       = Some (PStr ''BUSINESS'')
   \<and> map_of (req_params (flight_request env_ok (PStr ''tok'')
                (sample_flight_query\<lparr>travel_class := Some ''fIrSt''\<rparr>))) ''travelClass''
       = Some (PStr ''FIRST'')
   \<and> map_of (req_params (flight_request env_ok (PStr ''tok'')
                (sample_flight_query\<lparr>travel_class := Some ligature_first\<rparr>))) ''travelClass''
       = Some (PStr ''FIRST'')
   \<and> map_of (req_params (flight_request env_ok (PStr ''tok'')
                (sample_flight_query\<lparr>travel_class := Some ''FOO''\<rparr>))) ''travelClass''
       = None
   \<and> map_of (req_params (flight_request env_ok (PStr ''tok'')
                (sample_flight_query\<lparr>travel_class := Some []\<rparr>))) ''travelClass''
       = None
   \<and> search_amadeus_flights env_ok (sample_flight_query\<lparr>travel_class := Some ''FOO''\<rparr>) [] =
     search_amadeus_flights env_ok (sample_flight_query\<lparr>travel_class := None\<rparr>) []
   \<and> list_all (\<lambda>c. (of_char c :: nat) < 128) ''fIrSt''
   \<and> list_all2 (\<lambda>a b. a = b \<or> (a, b) \<in> set (zip ''abcdefghijklmnopqrstuvwxyz''
                                                  ''ABCDEFGHIJKLMNOPQRSTUVWXYZ'')) ''fIrSt'' ''FIRST''
   \<and> \<not> list_all2 (\<lambda>a b. a = b \<or> (a, b) \<in> set (zip ''abcdefghijklmnopqrstuvwxyz''
                                                    ''ABCDEFGHIJKLMNOPQRSTUVWXYZ'')) ''FOO'' ''FIRST''"
proof -
  have m: "flight_request env_ok (PStr ''tok'') q \<in> set (snd (search_amadeus_flights env_ok q []))"
    for q by (simp add: env_ok_flight_log)
  have g: "req_method (flight_request env_ok (PStr ''tok'') q) = GET" for q
    by (simp add: flight_request_def)
  have t: "travel_class sample_flight_query = Some ''economy''"
    by (simp add: sample_flight_query_def)
  have p: "map_of (req_params (flight_request env_ok (PStr ''tok'') q)) ''travelClass'' =
         (case travel_class q of
            None \<Rightarrow> None
          | Some tc \<Rightarrow>
              if upper sample_python tc
                   \<in> set [''ECONOMY'', ''PREMIUM_ECONOMY'', ''BUSINESS'', ''FIRST'']
              then Some (PStr (upper sample_python tc)) else None)" for q
    using travel_class_sent_iff_recognised [of env_ok q] m [of q] g [of q]
    by (simp only: env_ok_python)
  have f: "search_amadeus_flights env_ok (sample_flight_query\<lparr>travel_class := Some ''FOO''\<rparr>) [] =
     search_amadeus_flights env_ok (sample_flight_query\<lparr>travel_class := None\<rparr>) []"
    using travel_class_sent_iff_recognised [of env_ok sample_flight_query]
    by (simp add: env_ok_python sample_upper)
  have a: "list_all (\<lambda>c. (of_char c :: nat) < 128) ''fIrSt''" "list_all (\<lambda>c. (of_char c :: nat) < 128) ''FOO''"
    by simp_all
  have l: "list_all2 (\<lambda>a b. a = b \<or> (a, b) \<in> set (zip ''abcdefghijklmnopqrstuvwxyz''
                                                  ''ABCDEFGHIJKLMNOPQRSTUVWXYZ'')) ''fIrSt'' ''FIRST''"
    "\<not> list_all2 (\<lambda>a b. a = b \<or> (a, b) \<in> set (zip ''abcdefghijklmnopqrstuvwxyz''
                                                    ''ABCDEFGHIJKLMNOPQRSTUVWXYZ'')) ''FOO'' ''FIRST''"
    using travel_class_sent_iff_recognised [of env_ok sample_flight_query] a
    by (simp_all add: env_ok_python sample_upper)
  show ?thesis
    using m [of sample_flight_query] g [of sample_flight_query] t f a(1) l
    by (simp add: p sample_upper upper_Nil)
qed

text \<open>
  C9. In every flight search the flight-offers request holds \<^verbatim>\<open>children\<close> exactly when
  the argument is greater than zero, and likewise \<^verbatim>\<open>infants\<close>; with both zero neither
  key is in the request.
\<close>

theorem children_infants_sent_iff_positive:
  "\<forall>r \<in> set (snd (search_amadeus_flights env q [])). req_method r = GET \<longrightarrow>
       map_of (req_params r) ''children'' =
         (if children q > 0 then Some (PInt (children q)) else None)
     \<and> map_of (req_params r) ''infants'' =
         (if infants q > 0 then Some (PInt (infants q)) else None)
     \<and> (children q = 0 \<and> infants q = 0 \<longrightarrow>
          ''children'' \<notin> set (map fst (req_params r))
        \<and> ''infants'' \<notin> set (map fst (req_params r)))"
proof (intro ballI impI)
  fix r
  assume "r \<in> set (snd (search_amadeus_flights env q []))" "req_method r = GET"
  then obtain token where r: "r = flight_request env token q"
    using flights_log_get by blast
  have c: "map_of (req_params r) ''children'' =
         (if children q > 0 then Some (PInt (children q)) else None)"
    and i: "map_of (req_params r) ''infants'' =
         (if infants q > 0 then Some (PInt (infants q)) else None)"
    by (simp_all add: r flight_request_params flight_params_children flight_params_infants)
  have "children q = 0 \<and> infants q = 0 \<longrightarrow>
          ''children'' \<notin> set (map fst (req_params r))
        \<and> ''infants'' \<notin> set (map fst (req_params r))"
    using c i by (auto simp: map_of_eq_None_iff [symmetric] simp del: map_of_eq_None_iff)
  with c i show "map_of (req_params r) ''children'' =
         (if children q > 0 then Some (PInt (children q)) else None)
     \<and> map_of (req_params r) ''infants'' =
         (if infants q > 0 then Some (PInt (infants q)) else None)
     \<and> (children q = 0 \<and> infants q = 0 \<longrightarrow>
          ''children'' \<notin> set (map fst (req_params r))
        \<and> ''infants'' \<notin> set (map fst (req_params r)))"
    by blast
qed

theorem children_infants_sent_iff_positive_witness:
  "flight_request env_ok (PStr ''tok'') sample_flight_query
     \<in> set (snd (search_amadeus_flights env_ok sample_flight_query []))
   \<and> req_method (flight_request env_ok (PStr ''tok'') sample_flight_query) = GET
   \<and> children sample_flight_query = 0 \<and> infants sample_flight_query = 0
   \<and> ''children''
       \<notin> set (map fst (req_params (flight_request env_ok (PStr ''tok'') sample_flight_query)))
   \<and> ''infants''
       \<notin> set (map fst (req_params (flight_request env_ok (PStr ''tok'') sample_flight_query)))
   \<and> flight_request env_ok (PStr ''tok'') (sample_flight_query\<lparr>children := 2, infants := 1\<rparr>)
     \<in> set (snd (search_amadeus_flights env_ok
                   (sample_flight_query\<lparr>children := 2, infants := 1\<rparr>) []))
   \<and> map_of (req_params (flight_request env_ok (PStr ''tok'')
                 (sample_flight_query\<lparr>children := 2, infants := 1\<rparr>))) ''children''
       = Some (PInt 2)
   \<and> map_of (req_params (flight_request env_ok (PStr ''tok'')
                 (sample_flight_query\<lparr>children := 2, infants := 1\<rparr>))) ''infants''
       = Some (PInt 1)"
proof -
  have m: "flight_request env_ok (PStr ''tok'') q \<in> set (snd (search_amadeus_flights env_ok q []))"
    for q by (simp add: env_ok_flight_log)
  have g: "req_method (flight_request env_ok (PStr ''tok'') q) = GET" for q
    by (simp add: flight_request_def)
  have z: "children sample_flight_query = 0" "infants sample_flight_query = 0"
    by (simp_all add: sample_flight_query_def)
  from children_infants_sent_iff_positive [of env_ok sample_flight_query]
    children_infants_sent_iff_positive
      [of env_ok "sample_flight_query\<lparr>children := 2, infants := 1\<rparr>"]
    m g z
  show ?thesis
    by (auto simp del: set_map)
qed

section \<open>What a successful flight search returns\<close>

text \<open>
  C7, as amended. When the token is obtained and the flight-offers GET returns a 2xx
  response whose body \<^verbatim>\<open>response.json()\<close> decodes, the flight client returns
  \<^verbatim>\<open>str()\<close> of the decoded value: Python's rendering of the parsed JSON, not the text of
  the body. The structure of the payload is not inspected.
\<close>

theorem flight_success_returns_str_of_json:
  assumes "get_amadeus_token env [] = (Return token, log1)"
      and "py_contains token ''Error'' = Inr False"
      and "http env (flight_request env token q) = Responds r"
      and "200 \<le> status_code r" "status_code r < 300"
      and "resp_json r = Inr body"
  shows "search_amadeus_flights env q [] =
           (Return (PStr (py_str (python env) body)), log1 @ [flight_request env token q])"
  using assms
  by (simp add: search_amadeus_flights_def flight_try_def and_then_def received_def
        raise_for_status_def)

lemma repr_data_empty:
  "py_str sample_python (PDict [(''data'', PList [])]) = ''{'data': []}''"
  by (simp add: py_str_def repr_str_def repr_quote_def repr_char_def is_ascii_def)

lemma repr_flight_body:
  "py_str sample_python flight_body =
     ''{'data': [{'id': '1', 'price': 12.5, 'oneWay': False, 'seats': 9, 'note': None, 'name': \"O'Hare\"}]}''"
  by (simp add: flight_body_def py_str_def repr_str_def repr_quote_def repr_char_def
        is_ascii_def show_int_def show_nat.simps digit_char_def)

lemma env_flights_token:
  "get_amadeus_token env_flights [] =
     (Return (PStr ''tok''), [token_request TOKEN_URL env_flights None])"
  by (simp add: get_amadeus_token_def token_try_def py_defs provider_simps sample_defs)

lemma env_flights_http:
  "http env_flights (flight_request env token q)
     = Responds (ok_response flight_body_text flight_body)"
  by (simp add: env_flights_def provider_flights)

lemma env_flights_python: "python env_flights = sample_python"
  by (simp add: env_flights_def env_ok_def)

theorem flight_success_returns_str_of_json_witness:
  "get_amadeus_token env_flights [] =
     (Return (PStr ''tok''), [token_request TOKEN_URL env_flights None])
   \<and> py_contains (PStr ''tok'') ''Error'' = Inr False
   \<and> http env_flights (flight_request env_flights (PStr ''tok'') sample_flight_query)
       = Responds (ok_response flight_body_text flight_body)
   \<and> status_code (ok_response flight_body_text flight_body) = 200
   \<and> resp_json (ok_response flight_body_text flight_body) = Inr flight_body
   \<and> search_amadeus_flights env_flights sample_flight_query [] =
       (Return (PStr ''{'data': [{'id': '1', 'price': 12.5, 'oneWay': False, 'seats': 9, 'note': None, 'name': \"O'Hare\"}]}''),
        [token_request TOKEN_URL env_flights None,
         flight_request env_flights (PStr ''tok'') sample_flight_query])"
proof -
  have s: "200 \<le> status_code (ok_response flight_body_text flight_body)"
    "status_code (ok_response flight_body_text flight_body) < 300"
    "status_code (ok_response flight_body_text flight_body) = 200"
    by (simp_all add: ok_response_def)
  have j: "resp_json (ok_response flight_body_text flight_body) = Inr flight_body"
    by (simp add: ok_response_def)
  from flight_success_returns_str_of_json
         [OF env_flights_token tok_no_Error env_flights_http s(1) s(2) j]
  show ?thesis
    using env_flights_token tok_no_Error env_flights_http s(3) j
    by (simp add: env_flights_python repr_flight_body)
qed

text \<open>
  Counterexample to C7 as stated. The claim fails already on the smallest payload: the
  provider's body is \<^verbatim>\<open>{"data": []}\<close>, and the flight client returns
  \<^verbatim>\<open>{'data': []}\<close>.
\<close>

theorem flight_success_not_verbatim:
  "http env_ok (flight_request env_ok (PStr ''tok'') sample_flight_query)
       = Responds (ok_response ''{\"data\": []}'' (PDict [(''data'', PList [])]))
   \<and> status_code (ok_response ''{\"data\": []}'' (PDict [(''data'', PList [])])) = 200
   \<and> resp_text (ok_response ''{\"data\": []}'' (PDict [(''data'', PList [])])) = ''{\"data\": []}''
   \<and> fst (search_amadeus_flights env_ok sample_flight_query [])
       = Return (PStr ''{'data': []}'')
   \<and> fst (search_amadeus_flights env_ok sample_flight_query [])
       \<noteq> Return (PStr ''{\"data\": []}'')"
  by (simp add: search_amadeus_flights_def env_ok_token tok_no_Error flight_try_def
        env_ok_flights flights_ok_def ok_response_def and_then_def received_def
        raise_for_status_def env_ok_python repr_data_empty)

end
